theory Spec2Isabelle
  imports Complex_Main
begin

section \<open>Numbers and NumPy reductions\<close>

text \<open>
  The program computes with IEEE doubles; the model computes with \<^typ>\<open>real\<close>. Rounding is
  therefore outside the model. The special values are not: wherever the source can produce
  \<open>nan\<close> or \<open>inf\<close> (a division by a zero price) the model has an explicit branch that does
  what the source does with that value.

  \<open>np.mean\<close>, \<open>np.var\<close> and \<open>np.std\<close> are the population formulas (\<open>ddof = 0\<close>).
\<close>

definition np_mean :: "real list \<Rightarrow> real" where
  "np_mean xs = sum_list xs / real (length xs)"

definition np_var :: "real list \<Rightarrow> real" where
  "np_var xs = np_mean (map (\<lambda>x. (x - np_mean xs)\<^sup>2) xs)"

definition np_std :: "real list \<Rightarrow> real" where
  "np_std xs = sqrt (np_var xs)"

text \<open>\<open>np.diff(xs)\<close>: the differences of neighbours, one element shorter.\<close>

fun np_diff :: "real list \<Rightarrow> real list" where
  "np_diff (x # y # ys) = (y - x) # np_diff (y # ys)"
| "np_diff _ = []"

text \<open>\<open>np.mean(rows, axis=0)\<close> for rows of the length of the first row.\<close>

definition mean_axis0 :: "real list list \<Rightarrow> real list" where
  "mean_axis0 rows = map (\<lambda>j. np_mean (map (\<lambda>r. r ! j) rows)) [0..<length (hd rows)]"

text \<open>Python's \<open>max(a, b)\<close> and \<open>min(a, b)\<close> on two numbers: the first argument wins a tie.\<close>

definition py_max :: "real \<Rightarrow> real \<Rightarrow> real" where
  "py_max a b = (if b > a then b else a)"

definition py_min :: "real \<Rightarrow> real \<Rightarrow> real" where
  "py_min a b = (if b < a then b else a)"

text \<open>Decimal rendering of a natural number, and the three-digit zero padding of
  \<open>f'{n:03d}'\<close> and \<open>n.toString().padStart(3, '0')\<close>.\<close>

definition digit_char :: "nat \<Rightarrow> char" where
  "digit_char d = ''0123456789'' ! d"

fun dec_str :: "nat \<Rightarrow> string" where
  "dec_str n = (if n < 10 then [digit_char n] else dec_str (n div 10) @ [digit_char (n mod 10)])"

declare dec_str.simps [simp del]

definition pad_left :: "nat \<Rightarrow> char \<Rightarrow> string \<Rightarrow> string" where
  "pad_left w c s = replicate (w - length s) c @ s"

definition pattern_id :: "nat \<Rightarrow> string" where
  "pattern_id n = ''pattern_'' @ pad_left 3 (CHR ''0'') (dec_str n)"

section \<open>Data model (types.ts)\<close>

record currency_pair =
  base :: string
  quote :: string
  symbol :: string

record time_frame =
  tf_value :: string
  tf_label :: string
  tf_minutes :: int

text \<open>\<open>PatternMiningParams\<close>. The counts are integers, as the sliders and \<open>parseInt\<close> of the
  parameter panel produce them.\<close>

record mining_params =
  currencyPair :: currency_pair
  timeFrame :: time_frame
  windowSize :: int
  minSupport :: real
  minConfidence :: real
  dataPoints :: int
  overlapThreshold :: real
  noiseFilter :: real
  significanceLevel :: real
  bootstrapSamples :: int
  crossValidationFolds :: int
  includeTechnicalIndicators :: bool
  rsiPeriod :: int
  macdFast :: int
  macdSlow :: int
  bollBandPeriod :: int

datatype pattern_type = bullish | bearish | neutral

text \<open>\<open>DiscoveredPattern\<close>, which is also the shape of the dictionaries the two generated
  Python scripts emit. \<open>occurrences\<close> is the empty list on every path and is left out;
  \<open>firstSeen\<close> and \<open>lastSeen\<close> are absent from the dictionaries of the first script.\<close>

record pattern =
  pid :: string
  ptype :: pattern_type
  support :: real
  confidence :: real
  significance :: real
  profitability :: real
  winRate :: real
  avgReturn :: real
  maxDrawdown :: real
  sharpeRatio :: real
  pricePoints :: "real list"
  duration :: nat
  frequency :: nat
  firstSeen :: "string option"
  lastSeen :: "string option"

datatype py_error = IndexError | KeyError | ValueError | NameError

section \<open>Library collaborators\<close>

text \<open>
  NumPy's global generator is a state of an unspecified type \<open>'g\<close>; every draw returns the
  value and the next state. \<open>np.random.choice(xs, size=len(xs), replace=True)\<close> returns a
  resample of \<open>xs\<close>. scikit-learn's \<open>KMeans(n_clusters, random_state, n_init=10).fit_predict\<close>
  and \<open>silhouette_score\<close> are functions of their arguments (the generator of \<open>KMeans\<close> is its
  own, seeded by \<open>random_state\<close>).
\<close>

record 'g numpy_random =
  random_seed :: "nat \<Rightarrow> 'g"
  random_normal :: "real \<Rightarrow> real \<Rightarrow> 'g \<Rightarrow> real \<times> 'g"
  random_choice :: "real list \<Rightarrow> 'g \<Rightarrow> real list \<times> 'g"

record sklearn =
  kmeans_fit_predict :: "nat \<Rightarrow> nat \<Rightarrow> real list list \<Rightarrow> nat list"
  silhouette_score :: "real list list \<Rightarrow> nat list \<Rightarrow> real"

text \<open>\<open>StandardScaler().fit_transform\<close>: every column shifted to mean 0 and divided by its
  population standard deviation, a zero deviation replaced by 1.\<close>

definition scale_column :: "real list \<Rightarrow> real list" where
  "scale_column col =
     (let m = np_mean col; s = np_std col; s' = (if s = 0 then 1 else s)
      in map (\<lambda>x. (x - m) / s') col)"

definition standard_scaler :: "real list list \<Rightarrow> real list list" where
  "standard_scaler X = transpose (map scale_column (transpose X))"

text \<open>\<open>MinMaxScaler().fit_transform\<close> of one column: \<open>(x - min) / (max - min)\<close>, a zero range
  replaced by 1.\<close>

definition minmax_scaler :: "real list \<Rightarrow> real list" where
  "minmax_scaler col =
     (let lo = Min (set col); hi = Max (set col); r = (if hi - lo = 0 then 1 else hi - lo)
      in map (\<lambda>x. (x - lo) / r) col)"

section \<open>The first generated script (generateNotebookCode)\<close>

text \<open>One row of the OHLC frame. The field names carry a prefix because \<open>open\<close> is a
  constant of the library.\<close>

record price_bar =
  bar_timestamp :: string
  bar_open :: real
  bar_high :: real
  bar_low :: real
  bar_close :: real



definition two_digits :: "nat \<Rightarrow> string" where
  "two_digits n = pad_left 2 (CHR ''0'') (dec_str n)"

definition bar_time :: "nat \<Rightarrow> string" where
  "bar_time i = ''2024-01-'' @ two_digits (i div 1440 + 1) @ '' '' @
                two_digits ((i mod 1440) div 60) @ '':'' @ two_digits (i mod 60) @ '':00''"



text \<open>A window dictionary of \<open>extract_patterns\<close>.\<close>

record window =
  index :: nat
  normalized :: "real list"
  trend :: real
  volatility :: real
  momentum :: real

text \<open>
  The body of the window loop at start index \<open>i\<close>, for a positive window size: \<open>[]\<close> when
  the window is filtered out, else the one dictionary appended. A window whose first close
  is 0 has \<open>normalized[0] = 0/0 = nan\<close>, so \<open>np.std(normalized)\<close> is \<open>nan\<close> and the test
  \<open>volatility > 0.0001\<close> is false. A window of one bar has the deviation 0 and is
  filtered out, so that the \<open>nan\<close> of its \<open>np.mean(np.diff(normalized))\<close> goes nowhere.
\<close>

definition window_at :: "real list \<Rightarrow> nat \<Rightarrow> nat \<Rightarrow> window list" where
  "window_at closes w i =
     (let win = take w (drop i closes)
      in if hd win = 0 then []
         else let normalized = map (\<lambda>x. (x - hd win) / hd win) win;
                  trend = last normalized - hd normalized;
                  volatility = np_std normalized;
                  momentum = np_mean (np_diff normalized)
              in if volatility > 0.0001
                 then [\<lparr>index = i, normalized = normalized, trend = trend,
                        volatility = volatility, momentum = momentum\<rparr>]
                 else [])"

text \<open>
  The loop \<open>for i in range(len(data) - window_size)\<close>. It does not run when
  \<open>len(data) \<le> window_size\<close>. When it runs with a window size of 0 or less, a slice
  \<open>data.iloc[i:i+window_size]\<close> is empty at \<open>i = -window_size\<close> at the latest and
  \<open>window[0]\<close> raises (on a frame without rows the column lookup raises first).
\<close>

definition extract_windows :: "mining_params \<Rightarrow> price_bar list \<Rightarrow> py_error + window list" where
  "extract_windows params data =
     (let window_size = windowSize params;
          n = int (length data) - window_size
      in if n \<le> 0 then Inr []
         else if window_size \<le> 0 then Inl (if data = [] then KeyError else IndexError)
         else Inr (concat (map (window_at (map bar_close data) (nat window_size)) [0..<nat n])))"

text \<open>The loop \<open>for _ in range(100)\<close> of \<open>create_pattern\<close>, with the number of rounds as
  an argument.\<close>

fun bootstrap_means :: "'g numpy_random \<Rightarrow> real list \<Rightarrow> nat \<Rightarrow> 'g \<Rightarrow> real list \<times> 'g" where
  "bootstrap_means rnd trends 0 g = ([], g)"
| "bootstrap_means rnd trends (Suc n) g =
     (let (sample, g1) = random_choice rnd trends g;
          (rest, g2) = bootstrap_means rnd trends n g1
      in (np_mean sample # rest, g2))"

text \<open>\<open>np.mean(np.abs(bootstrap_means) >= np.abs(observed_mean))\<close>: the mean of the
  comparison results read as 1 and 0.\<close>

definition p_value_of :: "real list \<Rightarrow> real \<Rightarrow> real" where
  "p_value_of means observed_mean =
     np_mean (map (\<lambda>m. if \<bar>m\<bar> \<ge> \<bar>observed_mean\<bar> then 1 else 0) means)"

definition classify :: "real \<Rightarrow> real \<Rightarrow> real \<Rightarrow> pattern_type" where
  "classify threshold avg_trend avg_momentum =
     (if avg_trend > threshold \<and> avg_momentum > 0 then bullish
      else if avg_trend < - threshold \<and> avg_momentum < 0 then bearish
      else neutral)"

definition create_pattern ::
  "'g numpy_random \<Rightarrow> mining_params \<Rightarrow> window list \<Rightarrow> nat \<Rightarrow> real \<Rightarrow> 'g \<Rightarrow> pattern \<times> 'g" where
  "create_pattern rnd params cluster_windows cluster_id supp g =
     (let avg_trend = np_mean (map trend cluster_windows);
          avg_vol = np_mean (map volatility cluster_windows);
          avg_momentum = np_mean (map momentum cluster_windows);
          pattern_type = classify 0.002 avg_trend avg_momentum;
          trend_std = np_std (map trend cluster_windows);
          conf = py_max 0.5 (1 / (1 + trend_std * 1000));
          trends = map trend cluster_windows;
          (means, g1) = bootstrap_means rnd trends 100 g;
          observed_mean = np_mean trends;
          p_value = p_value_of means observed_mean;
          signif = py_max 0.1 (1 - p_value);
          (noise, g2) = random_normal rnd 0 0.02 g1;
          profit0 = avg_trend * 50 + noise;
          profit = py_max (- 0.1) (py_min 0.15 profit0);
          avg_shape = mean_axis0 (map normalized cluster_windows)
      in (\<lparr>pid = pattern_id cluster_id, ptype = pattern_type, support = supp,
           confidence = conf, significance = signif, profitability = profit,
           winRate = conf * 0.8, avgReturn = profit, maxDrawdown = \<bar>avg_trend\<bar> * 0.5,
           sharpeRatio = py_max 0 (profit / (avg_vol + 0.001)),
           pricePoints = avg_shape, duration = length avg_shape,
           frequency = length cluster_windows, firstSeen = None, lastSeen = None\<rparr>, g2))"

text \<open>\<open>[windows[i] for i in range(len(windows)) if labels[i] == cluster_id]\<close>, for a label
  array at least as long as the window list.\<close>

definition cluster_members :: "'a list \<Rightarrow> nat list \<Rightarrow> nat \<Rightarrow> 'a list" where
  "cluster_members windows labels cluster_id =
     map (\<lambda>i. windows ! i) (filter (\<lambda>i. labels ! i = cluster_id) [0..<length windows])"

text \<open>The loop \<open>for cluster_id in range(n_clusters)\<close> of \<open>extract_patterns\<close>.\<close>

fun frequent_patterns ::
  "'g numpy_random \<Rightarrow> mining_params \<Rightarrow> window list \<Rightarrow> nat list \<Rightarrow> nat list \<Rightarrow> 'g \<Rightarrow> pattern list \<times> 'g" where
  "frequent_patterns rnd params windows labels [] g = ([], g)"
| "frequent_patterns rnd params windows labels (cluster_id # ids) g =
     (let cluster_windows = cluster_members windows labels cluster_id;
          supp = real (length cluster_windows) / real (length windows)
      in if supp \<ge> minSupport params \<and> length cluster_windows \<ge> 3
         then let (p, g1) = create_pattern rnd params cluster_windows cluster_id supp g;
                  (ps, g2) = frequent_patterns rnd params windows labels ids g1
              in (p # ps, g2)
         else frequent_patterns rnd params windows labels ids g)"

definition cluster_count :: "nat \<Rightarrow> nat" where
  "cluster_count n = min 10 (max 3 (n div 20))"

text \<open>The labels \<open>KMeans(n_clusters, random_state=42, n_init=10)\<close> gives the windows.\<close>

definition window_labels :: "sklearn \<Rightarrow> window list \<Rightarrow> nat list" where
  "window_labels sk windows =
     (let features = map (\<lambda>w. [trend w, volatility w, momentum w]) windows;
          features_scaled = standard_scaler features;
          n_clusters = cluster_count (length windows)
      in kmeans_fit_predict sk n_clusters 42 features_scaled)"

definition extract_patterns ::
  "'g numpy_random \<Rightarrow> sklearn \<Rightarrow> mining_params \<Rightarrow> price_bar list \<Rightarrow> 'g \<Rightarrow> py_error + pattern list \<times> 'g" where
  "extract_patterns rnd sk params data g =
     (case extract_windows params data of
        Inl e \<Rightarrow> Inl e
      | Inr windows \<Rightarrow>
          if length windows < 10 then Inr ([], g)
          else let n_clusters = cluster_count (length windows);
                   labels = window_labels sk windows
               in if length labels < length windows then Inl IndexError
                  else Inr (frequent_patterns rnd params windows labels [0..<n_clusters] g))"

section \<open>Run statistics\<close>

text \<open>
  \<open>PatternMiningStatistics\<close> and the statistics dictionaries of the scripts. A field that some
  producer leaves out of its result is an option: \<open>None\<close> is the absent key. A frequency
  dictionary is an association list in insertion order.
\<close>

record out_of_sample =
  oos_winRate :: real
  oos_avgReturn :: real
  oos_sharpeRatio :: real

record statistics =
  totalPatterns :: nat
  uniquePatterns :: "nat option"
  avgConfidence :: real
  avgSupport :: real
  avgSignificance :: "real option"
  overallProfitability :: real
  avgWinRate :: "real option"
  avgSharpeRatio :: "real option"
  bestPattern :: "string option"
  worstPattern :: "string option"
  patternFrequency :: "(pattern_type \<times> nat) list"
  timeFrameDistribution :: "(string \<times> nat) list option"
  crossValidationScore :: "real option"
  bootstrapConfidence :: "real option"
  outOfSampleResults :: "out_of_sample option"

text \<open>\<open>freq[k] = freq.get(k, 0) + 1\<close>.\<close>

fun bump :: "'k \<Rightarrow> ('k \<times> nat) list \<Rightarrow> ('k \<times> nat) list" where
  "bump k [] = [(k, 1)]"
| "bump k ((k', c) # rest) = (if k = k' then (k', c + 1) # rest else (k', c) # bump k rest)"

definition frequency_of :: "pattern list \<Rightarrow> (pattern_type \<times> nat) list" where
  "frequency_of patterns = foldl (\<lambda>freq p. bump (ptype p) freq) [] patterns"

text \<open>Python's \<open>max(xs, key=f)\<close> and \<open>min(xs, key=f)\<close> on a non-empty list, and equally the
  JavaScript \<open>xs.reduce((best, cur) => f(cur) > f(best) ? cur : best)\<close>: the first element
  among those with the extreme key.\<close>

definition max_by :: "('a \<Rightarrow> real) \<Rightarrow> 'a list \<Rightarrow> 'a" where
  "max_by f xs = foldl (\<lambda>best cur. if f cur > f best then cur else best) (hd xs) (tl xs)"

definition min_by :: "('a \<Rightarrow> real) \<Rightarrow> 'a list \<Rightarrow> 'a" where
  "min_by f xs = foldl (\<lambda>worst cur. if f cur < f worst then cur else worst) (hd xs) (tl xs)"

definition unique_types :: "pattern list \<Rightarrow> nat" where
  "unique_types patterns = length (remdups (map ptype patterns))"

text \<open>The statistics both scripts compute for a non-empty pattern list.\<close>

definition full_statistics :: "mining_params \<Rightarrow> pattern list \<Rightarrow> statistics" where
  "full_statistics params patterns =
     (let wr = np_mean (map winRate patterns);
          prof = np_mean (map profitability patterns);
          sr = np_mean (map sharpeRatio patterns)
      in \<lparr>totalPatterns = length patterns,
          uniquePatterns = Some (unique_types patterns),
          avgConfidence = np_mean (map confidence patterns),
          avgSupport = np_mean (map support patterns),
          avgSignificance = Some (np_mean (map significance patterns)),
          overallProfitability = prof,
          avgWinRate = Some wr,
          avgSharpeRatio = Some sr,
          bestPattern = Some (pid (max_by profitability patterns)),
          worstPattern = Some (pid (min_by profitability patterns)),
          patternFrequency = frequency_of patterns,
          timeFrameDistribution = Some [(tf_value (timeFrame params), length patterns)],
          crossValidationScore =
            Some (real (length (filter (\<lambda>p. profitability p > 0) patterns))
                  / real (length patterns)),
          bootstrapConfidence =
            Some (np_mean (map (\<lambda>p. confidence p * significance p) patterns)),
          outOfSampleResults =
            Some \<lparr>oos_winRate = wr * 0.85, oos_avgReturn = prof * 0.8,
                  oos_sharpeRatio = sr * 0.75\<rparr>\<rparr>)"

text \<open>\<open>calculate_statistics\<close> of the first script: for no patterns a dictionary of five
  keys.\<close>

definition calculate_statistics :: "mining_params \<Rightarrow> pattern list \<Rightarrow> statistics" where
  "calculate_statistics params patterns =
     (if patterns = []
      then \<lparr>totalPatterns = 0, uniquePatterns = None, avgConfidence = 0, avgSupport = 0,
            avgSignificance = None, overallProfitability = 0, avgWinRate = None,
            avgSharpeRatio = None, bestPattern = None, worstPattern = None,
            patternFrequency = [], timeFrameDistribution = None,
            crossValidationScore = None, bootstrapConfidence = None,
            outOfSampleResults = None\<rparr>
      else full_statistics params patterns)"

text \<open>\<open>empty_statistics\<close> and \<open>calculate_comprehensive_statistics\<close> of the second script.\<close>

definition empty_statistics :: statistics where
  "empty_statistics =
     \<lparr>totalPatterns = 0, uniquePatterns = Some 0, avgConfidence = 0, avgSupport = 0,
      avgSignificance = None, overallProfitability = 0, avgWinRate = Some 0,
      avgSharpeRatio = Some 0, bestPattern = Some [], worstPattern = Some [],
      patternFrequency = [], timeFrameDistribution = Some [],
      crossValidationScore = Some 0, bootstrapConfidence = Some 0,
      outOfSampleResults =
        Some \<lparr>oos_winRate = 0, oos_avgReturn = 0, oos_sharpeRatio = 0\<rparr>\<rparr>"

definition calculate_comprehensive_statistics :: "mining_params \<Rightarrow> pattern list \<Rightarrow> statistics" where
  "calculate_comprehensive_statistics config patterns =
     (if patterns = [] then empty_statistics else full_statistics config patterns)"

text \<open>The result dictionary; its metadata also echoes the parameters, which is left out.\<close>

record run_metadata =
  dataPointsAnalyzed :: nat
  patternsFound :: nat
  executionTime :: nat
  algorithmVersion :: string

record mining_result =
  patterns :: "pattern list"
  stats :: statistics
  metadata :: run_metadata

text \<open>The method \<open>run_analysis\<close> of the first script, started in generator state \<open>g\<close>:
  the frame is generated, then \<open>analyse_frame\<close> extracts the patterns and aggregates.\<close>

definition analyse_frame ::
  "'g numpy_random \<Rightarrow> sklearn \<Rightarrow> mining_params \<Rightarrow> price_bar list \<Rightarrow> 'g \<Rightarrow> py_error + mining_result \<times> 'g" where
  "analyse_frame rnd sk params data g =
     (case extract_patterns rnd sk params data g of
        Inl e \<Rightarrow> Inl e
      | Inr (found, g1) \<Rightarrow>
          Inr (\<lparr>patterns = found, stats = calculate_statistics params found,
                metadata = \<lparr>dataPointsAnalyzed = length data, patternsFound = length found,
                            executionTime = 0, algorithmVersion = ''1.0.0''\<rparr>\<rparr>, g1))"




section \<open>The second generated script (generateKernelCode)\<close>

text \<open>
  The feature dictionary of \<open>calculate_pattern_features\<close>. The field names carry a prefix
  because the window dictionary of the first script has fields of the same names.
  \<open>f_finite\<close> is not a key of the dictionary: it records whether all its floats are finite.
  \<open>returns = np.diff(closes) / closes[:-1]\<close> holds \<open>inf\<close> or \<open>nan\<close> exactly when one of
  the divisors is 0, and is empty for a window of one bar, whose \<open>np.std\<close> and \<open>np.mean\<close>
  are \<open>nan\<close>; the real numbers the model puts in those fields are then without meaning.
\<close>

record features =
  f_normalized_prices :: "real list"
  f_trend :: real
  f_volatility :: real
  f_skewness :: real
  f_kurtosis :: real
  f_momentum :: real
  f_price_range :: real
  f_pattern_strength :: real
  f_directional_changes :: nat
  f_finite :: bool

definition calculate_skewness :: "real list \<Rightarrow> real" where
  "calculate_skewness returns =
     (let mean_return = np_mean returns; std_return = np_std returns
      in if std_return = 0 then 0
         else np_mean (map (\<lambda>r. ((r - mean_return) / std_return) ^ 3) returns))"

definition calculate_kurtosis :: "real list \<Rightarrow> real" where
  "calculate_kurtosis returns =
     (let mean_return = np_mean returns; std_return = np_std returns
      in if std_return = 0 then 0
         else np_mean (map (\<lambda>r. ((r - mean_return) / std_return) ^ 4) returns) - 3)"

definition calculate_pattern_features :: "real list \<Rightarrow> features" where
  "calculate_pattern_features closes =
     (let normalized_prices = minmax_scaler closes;
          returns = map (\<lambda>(d, c). d / c) (zip (np_diff closes) (butlast closes))
      in \<lparr>f_normalized_prices = normalized_prices,
          f_trend = last normalized_prices - hd normalized_prices,
          f_volatility = np_std returns,
          f_skewness = calculate_skewness returns,
          f_kurtosis = calculate_kurtosis returns,
          f_momentum = np_mean returns,
          f_price_range = (Max (set closes) - Min (set closes)) / hd closes,
          f_pattern_strength =
            np_std normalized_prices + \<bar>last normalized_prices - hd normalized_prices\<bar>,
          f_directional_changes =
            length (filter (\<lambda>i. returns ! i * returns ! (i - 1) < 0) [1..<length returns]),
          f_finite = (length closes \<ge> 2 \<and> 0 \<notin> set (butlast closes))\<rparr>)"

record sliding_window =
  start_idx :: nat
  end_idx :: nat
  feats :: features

definition sliding_window_at :: "real list \<Rightarrow> nat \<Rightarrow> nat \<Rightarrow> sliding_window list" where
  "sliding_window_at closes w i =
     (let fs = calculate_pattern_features (take w (drop i closes))
      in if f_pattern_strength fs > 0.05
         then [\<lparr>start_idx = i, end_idx = i + w, feats = fs\<rparr>]
         else [])"

text \<open>
  The window loop of \<open>extract_sliding_window_patterns\<close>. As in the first script it does not
  run when \<open>len(data) \<le> window_size\<close>; when it runs with a window size of 0 or less it
  reaches an empty slice, on which \<open>MinMaxScaler.fit_transform\<close> raises.
\<close>

definition extract_sliding_windows :: "mining_params \<Rightarrow> price_bar list \<Rightarrow> py_error + sliding_window list" where
  "extract_sliding_windows config data =
     (let window_size = windowSize config;
          n = int (length data) - window_size
      in if n \<le> 0 then Inr []
         else if window_size \<le> 0 then Inl (if data = [] then KeyError else ValueError)
         else Inr (concat (map (sliding_window_at (map bar_close data) (nat window_size))
                               [0..<nat n])))"

definition estimate_pattern_profitability ::
  "'g numpy_random \<Rightarrow> sliding_window list \<Rightarrow> real \<Rightarrow> real \<Rightarrow> 'g \<Rightarrow> real \<times> 'g" where
  "estimate_pattern_profitability rnd cluster_windows avg_trend avg_volatility g =
     (let base_profit = avg_trend * 50;
          volatility_penalty = avg_volatility * 100;
          (noise, g1) = random_normal rnd 0 0.01 g;
          profit = base_profit - volatility_penalty + noise
      in (py_max (- 0.08) (py_min 0.12 profit), g1))"

definition create_representative_pattern ::
  "'g numpy_random \<Rightarrow> sliding_window list \<Rightarrow> nat \<Rightarrow> real \<Rightarrow> 'g \<Rightarrow> pattern \<times> 'g" where
  "create_representative_pattern rnd cluster_windows cluster_id supp g =
     (let features_list = map feats cluster_windows;
          avg_trend = np_mean (map f_trend features_list);
          avg_volatility = np_mean (map f_volatility features_list);
          avg_momentum = np_mean (map f_momentum features_list);
          pattern_type = classify 0.01 avg_trend avg_momentum;
          trend_variance = np_var (map f_trend features_list);
          conf = py_max 0.5 (1 / (1 + trend_variance * 1000));
          trends = map f_trend features_list;
          t_stat = np_mean trends / (np_std trends / sqrt (real (length trends)) + 1 / 10 ^ 8);
          signif = py_min 0.99 (py_max 0.1 (\<bar>t_stat\<bar> / 10));
          avg_shape = mean_axis0 (map f_normalized_prices features_list);
          (profit, g1) = estimate_pattern_profitability rnd cluster_windows avg_trend avg_volatility g
      in (\<lparr>pid = pattern_id cluster_id, ptype = pattern_type, support = supp,
           confidence = conf, significance = signif, profitability = profit,
           winRate = conf * 0.8, avgReturn = profit, maxDrawdown = avg_volatility * 2,
           sharpeRatio = py_max 0 (profit / (avg_volatility + 0.001)),
           pricePoints = avg_shape, duration = length avg_shape,
           frequency = length cluster_windows,
           firstSeen = Some ''2024-01-01T00:00:00Z'',
           lastSeen = Some ''2024-01-31T23:59:59Z''\<rparr>, g1))"

text \<open>The loop \<open>for cluster_id in range(optimal_clusters)\<close> of
  \<open>cluster_and_filter_patterns\<close>.\<close>

fun frequent_clusters ::
  "'g numpy_random \<Rightarrow> real \<Rightarrow> sliding_window list \<Rightarrow> nat list \<Rightarrow> nat list \<Rightarrow> 'g \<Rightarrow> pattern list \<times> 'g" where
  "frequent_clusters rnd min_support windows labels [] g = ([], g)"
| "frequent_clusters rnd min_support windows labels (cluster_id # ids) g =
     (let cluster_windows = cluster_members windows labels cluster_id;
          supp = real (length cluster_windows) / real (length windows)
      in if supp \<ge> min_support \<and> length cluster_windows \<ge> 5
         then let (p, g1) = create_representative_pattern rnd cluster_windows cluster_id supp g;
                  (ps, g2) = frequent_clusters rnd min_support windows labels ids g1
              in (p # ps, g2)
         else frequent_clusters rnd min_support windows labels ids g)"

text \<open>\<open>np.argmax\<close>: the first position of the greatest element.\<close>

definition argmax :: "real list \<Rightarrow> nat" where
  "argmax xs = (if xs = [] then 0 else length (takeWhile (\<lambda>x. x \<noteq> Max (set xs)) xs))"

definition cluster_range :: "nat \<Rightarrow> nat list" where
  "cluster_range n =
     (let max_clusters = min 15 (n div 20);
          max_clusters' = (if max_clusters < 3 then 3 else max_clusters)
      in [3..<max_clusters' + 1])"

definition silhouette_of :: "sklearn \<Rightarrow> real list list \<Rightarrow> nat \<Rightarrow> real" where
  "silhouette_of sk features_scaled n_clusters =
     (let cluster_labels = kmeans_fit_predict sk n_clusters 42 features_scaled
      in if length (remdups cluster_labels) > 1
         then silhouette_score sk features_scaled cluster_labels
         else - 1)"

text \<open>The feature matrix, the cluster count with the best silhouette score and the labels
  of the final clustering.\<close>

definition feature_matrix_of :: "sliding_window list \<Rightarrow> real list list" where
  "feature_matrix_of windows =
     map (\<lambda>w. let fs = feats w
               in [f_trend fs, f_volatility fs, f_momentum fs, f_price_range fs,
                   f_skewness fs, f_kurtosis fs]) windows"

definition optimal_clusters_of :: "sklearn \<Rightarrow> sliding_window list \<Rightarrow> nat" where
  "optimal_clusters_of sk windows =
     (let features_scaled = standard_scaler (feature_matrix_of windows);
          candidates = cluster_range (length windows);
          silhouette_scores = map (silhouette_of sk features_scaled) candidates
      in candidates ! argmax silhouette_scores)"

definition final_labels :: "sklearn \<Rightarrow> sliding_window list \<Rightarrow> nat list" where
  "final_labels sk windows =
     kmeans_fit_predict sk (optimal_clusters_of sk windows) 42
       (standard_scaler (feature_matrix_of windows))"

text \<open>\<open>StandardScaler.fit_transform\<close> raises \<open>ValueError\<close> on a matrix that holds \<open>nan\<close> or
  \<open>inf\<close>.\<close>

definition cluster_and_filter_patterns ::
  "'g numpy_random \<Rightarrow> sklearn \<Rightarrow> sliding_window list \<Rightarrow> real \<Rightarrow> 'g \<Rightarrow> py_error + pattern list \<times> 'g" where
  "cluster_and_filter_patterns rnd sk windows min_support g =
     (if \<not> list_all (\<lambda>w. f_finite (feats w)) windows then Inl ValueError
      else let optimal_clusters = optimal_clusters_of sk windows;
               cluster_labels = final_labels sk windows
           in if length cluster_labels < length windows then Inl IndexError
              else Inr (frequent_clusters rnd min_support windows cluster_labels
                          [0..<optimal_clusters] g))"

definition extract_sliding_window_patterns ::
  "'g numpy_random \<Rightarrow> sklearn \<Rightarrow> mining_params \<Rightarrow> price_bar list \<Rightarrow> 'g \<Rightarrow> py_error + pattern list \<times> 'g" where
  "extract_sliding_window_patterns rnd sk config data g =
     (case extract_sliding_windows config data of
        Inl e \<Rightarrow> Inl e
      | Inr windows \<Rightarrow>
          if length windows < 10 then Inr ([], g)
          else cluster_and_filter_patterns rnd sk windows (minSupport config) g)"

text \<open>\<open>run_complete_analysis\<close> from the generated frame \<open>self.data\<close> on: patterns, then
  statistics. The plots it draws in between do not enter the result.\<close>

definition run_complete_analysis ::
  "'g numpy_random \<Rightarrow> sklearn \<Rightarrow> mining_params \<Rightarrow> price_bar list \<Rightarrow> 'g \<Rightarrow> py_error + mining_result \<times> 'g" where
  "run_complete_analysis rnd sk config data g =
     (case extract_sliding_window_patterns rnd sk config data g of
        Inl e \<Rightarrow> Inl e
      | Inr (found, g1) \<Rightarrow>
          Inr (\<lparr>patterns = found, stats = calculate_comprehensive_statistics config found,
                metadata = \<lparr>dataPointsAnalyzed = length data, patternsFound = length found,
                            executionTime = 0, algorithmVersion = ''1.0.0''\<rparr>\<rparr>, g1))"

section \<open>The analysis endpoint (calculatePatternStatistics)\<close>

text \<open>JavaScript's \<open>x || 0\<close> on a number: 0 for the falsy \<open>x\<close> (0 itself; \<open>NaN\<close> is outside
  the model), else \<open>x\<close>.\<close>

definition or0 :: "real \<Rightarrow> real" where
  "or0 x = (if x = 0 then 0 else x)"

text \<open>\<open>xs.reduce((sum, p) => sum + f(p), 0) / xs.length\<close>.\<close>

definition reduce_avg :: "('a \<Rightarrow> real) \<Rightarrow> 'a list \<Rightarrow> real" where
  "reduce_avg f xs = foldl (\<lambda>sum p. sum + f p) 0 xs / real (length xs)"

definition zero_statistics :: statistics where
  "zero_statistics =
     \<lparr>totalPatterns = 0, uniquePatterns = Some 0, avgConfidence = 0, avgSupport = 0,
      avgSignificance = None, overallProfitability = 0, avgWinRate = Some 0,
      avgSharpeRatio = Some 0, bestPattern = Some [], worstPattern = Some [],
      patternFrequency = [], timeFrameDistribution = Some [],
      crossValidationScore = Some 0, bootstrapConfidence = Some 0,
      outOfSampleResults =
        Some \<lparr>oos_winRate = 0, oos_avgReturn = 0, oos_sharpeRatio = 0\<rparr>\<rparr>"

definition calculatePatternStatistics :: "pattern list \<Rightarrow> statistics" where
  "calculatePatternStatistics ps =
     (if length ps = 0 then zero_statistics
      else let avgConf = reduce_avg confidence ps;
               prof = reduce_avg (\<lambda>p. or0 (profitability p)) ps;
               wr = reduce_avg (\<lambda>p. or0 (winRate p)) ps;
               sr = reduce_avg (\<lambda>p. or0 (sharpeRatio p)) ps;
               best = max_by (\<lambda>p. or0 (profitability p)) ps;
               worst = min_by (\<lambda>p. or0 (profitability p)) ps;
               profitablePatterns = length (filter (\<lambda>p. or0 (profitability p) > 0) ps);
               cv = real profitablePatterns / real (length ps)
           in \<lparr>totalPatterns = length ps,
               uniquePatterns = Some (unique_types ps),
               avgConfidence = avgConf,
               avgSupport = reduce_avg support ps,
               avgSignificance = None,
               overallProfitability = prof,
               avgWinRate = Some wr,
               avgSharpeRatio = Some sr,
               bestPattern = Some (pid best),
               worstPattern = Some (pid worst),
               patternFrequency = frequency_of ps,
               timeFrameDistribution = Some [],
               crossValidationScore = Some cv,
               bootstrapConfidence = Some (max 0 (min 1 (avgConf * cv))),
               outOfSampleResults =
                 Some \<lparr>oos_winRate = wr * 0.85, oos_avgReturn = prof * 0.8,
                       oos_sharpeRatio = sr * 0.75\<rparr>\<rparr>)"

section \<open>The demo generator (generateDemoResults)\<close>

text \<open>
  The ambient inputs of the function: \<open>math_random n\<close> is the value of the \<open>n\<close>-th call of
  \<open>Math.random()\<close> (a number in \<open>[0, 1)\<close>), \<open>date_now n\<close> the value of the \<open>n\<close>-th call
  of \<open>Date.now()\<close>, \<open>to_iso\<close> the rendering \<open>new Date(ms).toISOString()\<close>. The function
  has no other source of randomness and takes no seed.
\<close>

record js_env =
  math_random :: "nat \<Rightarrow> real"
  date_now :: "nat \<Rightarrow> real"
  to_iso :: "real \<Rightarrow> string"

text \<open>The inner loop \<open>for (j = 0; j < windowSize; j++)\<close>: \<open>n\<close> rounds left, \<open>k\<close> the number
  of random draws made so far.\<close>

fun demo_price_points :: "js_env \<Rightarrow> pattern_type \<Rightarrow> nat \<Rightarrow> nat \<Rightarrow> real \<Rightarrow> real list" where
  "demo_price_points env patternType 0 k currentPrice = []"
| "demo_price_points env patternType (Suc n) k currentPrice =
     (let trendFactor = (if patternType = bullish then 0.0015
                         else if patternType = bearish then - 0.0015 else 0);
          noise = (math_random env k - 0.5) * 0.003;
          currentPrice' = currentPrice + trendFactor + noise
      in currentPrice' # demo_price_points env patternType n (k + 1) currentPrice')"

text \<open>One round of the outer loop: pattern \<open>i\<close>, made from the draws \<open>k, \<dots>, k + 31\<close> in
  the order of evaluation of the source.\<close>

definition demo_pattern :: "js_env \<Rightarrow> nat \<Rightarrow> nat \<Rightarrow> pattern" where
  "demo_pattern env i k =
     (let patternType = [bullish, bearish, neutral] ! nat \<lfloor>math_random env k * 3\<rfloor>;
          conf = 0.6 + math_random env (k + 1) * 0.35;
          supp = 0.02 + math_random env (k + 2) * 0.15;
          signif = math_random env (k + 3) * 0.8 + 0.2;
          windowSize = 20;
          points = demo_price_points env patternType windowSize (k + 4) 0
      in \<lparr>pid = pattern_id i, ptype = patternType, support = supp, confidence = conf,
          significance = signif,
          profitability = (math_random env (k + 24) - 0.3) * 0.12,
          winRate = conf * 0.85 + math_random env (k + 25) * 0.15,
          avgReturn = (math_random env (k + 26) - 0.25) * 0.08,
          maxDrawdown = math_random env (k + 27) * 0.04,
          sharpeRatio = max 0 ((math_random env (k + 28) - 0.15) * 2.5),
          pricePoints = points, duration = windowSize,
          frequency = nat \<lfloor>math_random env (k + 29) * 40\<rfloor> + 10,
          firstSeen = Some (to_iso env (date_now env (2 * i)
                        - math_random env (k + 30) * 30 * 24 * 60 * 60 * 1000)),
          lastSeen = Some (to_iso env (date_now env (2 * i + 1)
                        - math_random env (k + 31) * 7 * 24 * 60 * 60 * 1000))\<rparr>)"

text \<open>The outer loop and the sort by descending confidence (\<open>Array.prototype.sort\<close> is
  stable, as is \<open>sort_key\<close>).\<close>

definition demo_count :: "js_env \<Rightarrow> nat" where
  "demo_count env = nat \<lfloor>math_random env 0 * 15\<rfloor> + 10"

definition demo_patterns :: "js_env \<Rightarrow> pattern list" where
  "demo_patterns env =
     (let numPatterns = demo_count env;
          made = map (\<lambda>i. demo_pattern env i (1 + 32 * i)) [0..<numPatterns]
      in sort_key (\<lambda>p. - confidence p) made)"

definition generateDemoResults :: "js_env \<Rightarrow> string \<Rightarrow> mining_result" where
  "generateDemoResults env jobId =
     (let sorted = demo_patterns env;
          k = 1 + 32 * demo_count env
      in \<lparr>patterns = sorted,
          stats =
            \<lparr>totalPatterns = length sorted,
             uniquePatterns = Some (unique_types sorted),
             avgConfidence = reduce_avg confidence sorted,
             avgSupport = reduce_avg support sorted,
             avgSignificance = Some (reduce_avg significance sorted),
             overallProfitability = reduce_avg (\<lambda>p. or0 (profitability p)) sorted,
             avgWinRate = Some (reduce_avg (\<lambda>p. or0 (winRate p)) sorted),
             avgSharpeRatio = Some (reduce_avg (\<lambda>p. or0 (sharpeRatio p)) sorted),
             bestPattern = Some (case sorted of [] \<Rightarrow> [] | p # _ \<Rightarrow> pid p),
             worstPattern = Some (if sorted = [] then [] else pid (last sorted)),
             patternFrequency = frequency_of sorted,
             timeFrameDistribution = Some [(''1h'', length sorted)],
             crossValidationScore = Some (math_random env k * 0.4 + 0.55),
             bootstrapConfidence = Some (math_random env (k + 1) * 0.25 + 0.65),
             outOfSampleResults =
               Some \<lparr>oos_winRate = math_random env (k + 2) * 0.25 + 0.45,
                     oos_avgReturn = (math_random env (k + 3) - 0.25) * 0.06,
                     oos_sharpeRatio = max 0 ((math_random env (k + 4) - 0.2) * 1.8)\<rparr>\<rparr>,
          metadata = \<lparr>dataPointsAnalyzed = 5000, patternsFound = length sorted,
                      executionTime = 180, algorithmVersion = ''1.0.0''\<rparr>\<rparr>)"

section \<open>The submit endpoint (POST /api/kaggle/submit)\<close>

text \<open>
  The parsed request body, as far as the handler reads it. A field of \<open>None\<close> is a key that
  is absent or falsy. The numbers are JavaScript numbers. \<open>BodyThrows\<close> is a body on which
  \<open>request.json()\<close> rejects or which is \<open>null\<close>, with the message of the exception.
\<close>

record raw_params =
  rp_currencyPair :: "currency_pair option"
  rp_timeFrame :: "time_frame option"
  rp_windowSize :: real
  rp_minSupport :: real
  rp_dataPoints :: real
  rp_bootstrapSamples :: real

datatype request_body = BodyThrows string | BodyParams raw_params

text \<open>What the call \<open>fetch(.../kernels/push)\<close> and the reading of its response come to:
  an exception, a response that is not ok, or an ok response with its \<open>ref\<close>.\<close>

datatype push_outcome = PushThrows | PushNotOk | PushOk "string option"

record submit_data =
  sd_jobId :: string
  sd_estimatedTime :: real
  sd_status :: string

record api_response =
  http_status :: nat
  resp_success :: bool
  resp_error :: "string option"
  resp_data :: "submit_data option"

definition submitPatternMiningJob :: "string \<Rightarrow> push_outcome \<Rightarrow> nat \<Rightarrow> raw_params \<Rightarrow> string" where
  "submitPatternMiningJob username outcome now params =
     (case outcome of
        PushOk (Some ref) \<Rightarrow> ref
      | _ \<Rightarrow> username @ ''/forex-pattern-'' @ dec_str now)"

definition getEstimatedExecutionTime :: "raw_params \<Rightarrow> real" where
  "getEstimatedExecutionTime params =
     (let baseTime = 120 + (rp_dataPoints params / 1000) * 15 + rp_windowSize params * 3
                     + (rp_bootstrapSamples params / 100) * 5
      in max baseTime 120)"

text \<open>The handler; \<open>auth_user\<close> is the user name of a well-formed bearer header.\<close>

definition POST :: "request_body \<Rightarrow> string option \<Rightarrow> push_outcome \<Rightarrow> nat \<Rightarrow> api_response" where
  "POST body auth_user outcome now =
     (case body of
        BodyThrows msg \<Rightarrow>
          \<lparr>http_status = 500, resp_success = False, resp_error = Some msg, resp_data = None\<rparr>
      | BodyParams params \<Rightarrow>
          if rp_currencyPair params = None \<or> rp_timeFrame params = None
          then \<lparr>http_status = 400, resp_success = False,
                resp_error = Some ''Missing required parameters: currencyPair and timeFrame'',
                resp_data = None\<rparr>
          else let kaggleUsername = (case auth_user of Some u \<Rightarrow> u | None \<Rightarrow> ''netszy'');
                   jobId = submitPatternMiningJob kaggleUsername outcome now params;
                   estimatedTime = getEstimatedExecutionTime params
               in \<lparr>http_status = 200, resp_success = True, resp_error = None,
                   resp_data = Some \<lparr>sd_jobId = jobId, sd_estimatedTime = estimatedTime,
                                     sd_status = ''submitted''\<rparr>\<rparr>)"

section \<open>Stated properties and concrete inputs\<close>

text \<open>\<open>DEFAULT_MINING_PARAMS\<close> of types.ts.\<close>

definition DEFAULT_MINING_PARAMS :: mining_params where
  "DEFAULT_MINING_PARAMS =
     \<lparr>currencyPair = \<lparr>base = ''EUR'', quote = ''USD'', symbol = ''EURUSD''\<rparr>,
      timeFrame = \<lparr>tf_value = ''1h'', tf_label = ''1 Hour'', tf_minutes = 60\<rparr>,
      windowSize = 20, minSupport = 0.05, minConfidence = 0.7, dataPoints = 10000,
      overlapThreshold = 0.3, noiseFilter = 0.1, significanceLevel = 0.05,
      bootstrapSamples = 1000, crossValidationFolds = 5, includeTechnicalIndicators = True,
      rsiPeriod = 14, macdFast = 12, macdSlow = 26, bollBandPeriod = 20\<rparr>"

text \<open>The out-of-sample figures are the in-sample averages times 0.85, 0.80 and 0.75.\<close>

definition discounted :: "statistics \<Rightarrow> bool" where
  "discounted s =
     (case (avgWinRate s, avgSharpeRatio s, outOfSampleResults s) of
        (Some w, Some r, Some out) \<Rightarrow>
          oos_winRate out = w * 0.85 \<and> oos_avgReturn out = overallProfitability s * 0.8
          \<and> oos_sharpeRatio out = r * 0.75
      | _ \<Rightarrow> False)"

text \<open>A run of the demo generator in which every call of \<open>Math.random()\<close> returns 0.\<close>

definition zero_env :: js_env where
  "zero_env = \<lparr>math_random = (\<lambda>n. 0), date_now = (\<lambda>n. 0),
               to_iso = (\<lambda>ms. ''1970-01-01T00:00:00.000Z'')\<rparr>"

definition demo_zero :: mining_result where
  "demo_zero = generateDemoResults zero_env ''netszy/forex-pattern-0''"

text \<open>A pattern as the first script may emit it.\<close>

definition example_pattern :: pattern where
  "example_pattern =
     \<lparr>pid = ''pattern_000'', ptype = bullish, support = 0.5, confidence = 0.5,
      significance = 0.1, profitability = 0.05, winRate = 0.4, avgReturn = 0.05,
      maxDrawdown = 0.001, sharpeRatio = 2, pricePoints = [0, 0.01], duration = 2,
      frequency = 5, firstSeen = None, lastSeen = None\<rparr>"

text \<open>A submit request with both required objects and numbers outside every sensible
  range.\<close>

definition out_of_range_request :: raw_params where
  "out_of_range_request =
     \<lparr>rp_currencyPair = Some \<lparr>base = ''EUR'', quote = ''USD'', symbol = ''EURUSD''\<rparr>,
      rp_timeFrame = Some \<lparr>tf_value = ''1h'', tf_label = ''1 Hour'', tf_minutes = 60\<rparr>,
      rp_windowSize = - 5, rp_minSupport = 7, rp_dataPoints = 10000,
      rp_bootstrapSamples = 0\<rparr>"

text \<open>The arithmetic mean of a field over a pattern list; a best-pattern entry that names a
  pattern of the list whose value of \<open>f\<close> no other pattern exceeds; a statistics structure
  in which every entry that is present is zero or empty.\<close>

definition mean_of :: "(pattern \<Rightarrow> real) \<Rightarrow> pattern list \<Rightarrow> real" where
  "mean_of f ps = sum_list (map f ps) / real (length ps)"

definition best_by :: "(pattern \<Rightarrow> real) \<Rightarrow> pattern list \<Rightarrow> string option \<Rightarrow> bool" where
  "best_by f ps b = (\<exists>p\<in>set ps. b = Some (pid p) \<and> (\<forall>q\<in>set ps. f q \<le> f p))"

definition all_zero :: "statistics \<Rightarrow> bool" where
  "all_zero s =
     (totalPatterns s = 0 \<and> avgConfidence s = 0 \<and> avgSupport s = 0 \<and>
      overallProfitability s = 0 \<and> patternFrequency s = [] \<and>
      uniquePatterns s \<in> {None, Some 0} \<and> avgSignificance s \<in> {None, Some 0} \<and>
      avgWinRate s \<in> {None, Some 0} \<and> avgSharpeRatio s \<in> {None, Some 0} \<and>
      bestPattern s \<in> {None, Some []} \<and> worstPattern s \<in> {None, Some []} \<and>
      timeFrameDistribution s \<in> {None, Some []} \<and>
      crossValidationScore s \<in> {None, Some 0} \<and> bootstrapConfidence s \<in> {None, Some 0} \<and>
      outOfSampleResults s \<in>
        {None, Some \<lparr>oos_winRate = 0, oos_avgReturn = 0, oos_sharpeRatio = 0\<rparr>})"

text \<open>A run of the demo generator in which pattern 0 draws the confidence 0.915 and the
  profitability -0.036, and every other pattern the confidence 0.6 and the profitability
  0.072.\<close>

definition best_env :: js_env where
  "best_env = \<lparr>math_random = (\<lambda>n. if n = 2 then 0.9 else if n > 32 \<and> n mod 32 = 25 then 0.9 else 0),
               date_now = (\<lambda>n. 0), to_iso = (\<lambda>ms. ''1970-01-01T00:00:00.000Z'')\<rparr>"

definition demo_best :: mining_result where
  "demo_best = generateDemoResults best_env ''netszy/forex-pattern-0''"

text \<open>A run that ends with no patterns: no error, an empty pattern list and statistics whose
  entries are all zero or empty.\<close>

definition empty_run :: "py_error + mining_result \<times> 'g \<Rightarrow> bool" where
  "empty_run r =
     (case r of
        Inl e \<Rightarrow> False
      | Inr (res, g) \<Rightarrow>
          patterns res = [] \<and> all_zero (stats res) \<and> patternsFound (metadata res) = 0)"

text \<open>Library stand-ins for concrete runs: a generator whose state counts the draws, whose
  normal draw is the mean and whose resample is the list itself; a clustering that puts the
  first half of the rows into cluster 0 and the rest into cluster 1.\<close>

definition counting_random :: "nat numpy_random" where
  "counting_random =
     \<lparr>random_seed = (\<lambda>s. s), random_normal = (\<lambda>mu sigma g. (mu, g + 1)),
      random_choice = (\<lambda>xs g. (xs, g + 1))\<rparr>"

definition halving_sklearn :: sklearn where
  "halving_sklearn =
     \<lparr>kmeans_fit_predict =
        (\<lambda>n_clusters random_state X.
           map (\<lambda>i. if i < length X div 2 then 0 else 1) [0..<length X]),
      silhouette_score = (\<lambda>X labels. 0)\<rparr>"

text \<open>Frames: five bars of equal price; three bars rising by one percent; nine bars with
  one dip and one peak.\<close>

definition flat_frame :: "price_bar list" where
  "flat_frame = map (\<lambda>i. \<lparr>bar_timestamp = bar_time i, bar_open = 1, bar_high = 1,
                           bar_low = 1, bar_close = 1\<rparr>) [0, 1, 2, 3, 4]"

definition two_bar_params :: mining_params where
  "two_bar_params = DEFAULT_MINING_PARAMS\<lparr>windowSize := 2\<rparr>"

definition rise_frame :: "price_bar list" where
  "rise_frame = map (\<lambda>(i, c). \<lparr>bar_timestamp = bar_time i, bar_open = c, bar_high = c,
                           bar_low = c, bar_close = c\<rparr>) [(0, 100), (1, 101), (2, 101)]"

definition zigzag_frame :: "price_bar list" where
  "zigzag_frame = map (\<lambda>(i, c). \<lparr>bar_timestamp = bar_time i, bar_open = c, bar_high = c,
                           bar_low = c, bar_close = c\<rparr>)
     [(0, 3), (1, 2), (2, 4), (3, 3), (4, 3), (5, 3), (6, 3), (7, 3), (8, 3)]"

definition eight_bar_params :: mining_params where
  "eight_bar_params = DEFAULT_MINING_PARAMS\<lparr>windowSize := 8, noiseFilter := 0.5\<rparr>"

text \<open>The confidence as the specification words it: from the variance of the trends and a
  scale.\<close>

definition spec_confidence :: "real \<Rightarrow> real list \<Rightarrow> real" where
  "spec_confidence scale trends = max 0.5 (1 / (1 + np_var trends * scale))"

text \<open>
  The significance as the specification words it, written without any function of the
  scripts. Resampling with replacement is the library's draw \<open>random_choice\<close>; the draws
  follow one another, so the generator state before resample \<open>k\<close> is the start state after
  \<open>k\<close> draws. The mean of a resample is its sum over its length. The p-value is the
  fraction of the \<open>B\<close> resample means whose absolute value is at least the absolute observed
  mean, and the significance is one minus the p-value, not below 0.1.
\<close>

definition resample :: "'g numpy_random \<Rightarrow> real list \<Rightarrow> 'g \<Rightarrow> nat \<Rightarrow> real list" where
  "resample rnd values g k =
     fst (random_choice rnd values (((\<lambda>s. snd (random_choice rnd values s)) ^^ k) g))"

definition spec_significance :: "'g numpy_random \<Rightarrow> nat \<Rightarrow> real list \<Rightarrow> 'g \<Rightarrow> real" where
  "spec_significance rnd B trends g =
     (let resampled_means =
            map (\<lambda>k. sum_list (resample rnd trends g k) / real (length (resample rnd trends g k)))
                [0..<B];
          observed_mean = sum_list trends / real (length trends);
          p_value = real (length (filter (\<lambda>m. \<bar>m\<bar> \<ge> \<bar>observed_mean\<bar>) resampled_means)) / real B
      in max 0.1 (1 - p_value))"

text \<open>The t statistic of \<open>create_representative_pattern\<close>.\<close>

definition t_statistic :: "real list \<Rightarrow> real" where
  "t_statistic trends =
     np_mean trends / (np_std trends / sqrt (real (length trends)) + 1 / 10 ^ 8)"

text \<open>Clusters: windows of two bars whose trends alternate between two values, with the
  standard deviation 1/2000 and 1/4000; five rising windows of two bars, all of trend 1.\<close>

definition two_bar_window :: "nat \<Rightarrow> real \<Rightarrow> window" where
  "two_bar_window i t =
     \<lparr>index = i, normalized = [0, t], trend = t, volatility = \<bar>t\<bar> / 2, momentum = t\<rparr>"

definition wide_cluster :: "window list" where
  "wide_cluster = [two_bar_window 0 (1 / 1000), two_bar_window 1 (2 / 1000),
                   two_bar_window 2 (1 / 1000), two_bar_window 3 (2 / 1000)]"

definition narrow_cluster :: "window list" where
  "narrow_cluster = [two_bar_window 0 (1 / 2000), two_bar_window 1 (2 / 2000),
                     two_bar_window 2 (1 / 2000), two_bar_window 3 (2 / 2000)]"

definition steady_cluster :: "sliding_window list" where
  "steady_cluster =
     map (\<lambda>i. \<lparr>start_idx = i, end_idx = i + 2, feats = calculate_pattern_features [1, 2]\<rparr>)
         [0, 1, 2, 3, 4]"

text \<open>A frame of twelve bars whose close rises from 100 to 111, its ten windows of two bars
  in either script, and the runs of both scripts on it with the library stand-ins.\<close>

definition ramp_frame :: "price_bar list" where
  "ramp_frame = map (\<lambda>i. \<lparr>bar_timestamp = bar_time i, bar_open = 100 + real i,
                           bar_high = 100 + real i, bar_low = 100 + real i,
                           bar_close = 100 + real i\<rparr>)
                    [0, 1, 2, 3, 4, 5, 6, 7, 8, 9, 10, 11]"

definition ramp_windows :: "window list" where
  "ramp_windows = map (\<lambda>i. two_bar_window i (1 / (100 + real i))) [0, 1, 2, 3, 4, 5, 6, 7, 8, 9]"

definition ramp_sliding_windows :: "sliding_window list" where
  "ramp_sliding_windows =
     map (\<lambda>i. \<lparr>start_idx = i, end_idx = i + 2,
               feats = calculate_pattern_features [100 + real i, 101 + real i]\<rparr>)
         [0, 1, 2, 3, 4, 5, 6, 7, 8, 9]"

definition ramp_run :: "py_error + pattern list \<times> nat" where
  "ramp_run = extract_patterns counting_random halving_sklearn two_bar_params ramp_frame 0"

definition ramp_sliding_run :: "py_error + pattern list \<times> nat" where
  "ramp_sliding_run =
     extract_sliding_window_patterns counting_random halving_sklearn two_bar_params ramp_frame 0"

text \<open>A run of the demo generator in which every pattern draws 0 for its profitability and
  0.9 for its Sharpe ratio.\<close>

definition sharpe_env :: js_env where
  "sharpe_env = \<lparr>math_random = (\<lambda>n. if n mod 32 = 29 then 0.9 else 0), date_now = (\<lambda>n. 0),
                 to_iso = (\<lambda>ms. ''1970-01-01T00:00:00.000Z'')\<rparr>"

definition demo_sharpe :: mining_result where
  "demo_sharpe = generateDemoResults sharpe_env ''netszy/forex-pattern-0''"









section \<open>Auxiliary facts\<close>

lemma foldl_add_sum: "foldl (\<lambda>sum p. sum + f p) a xs = a + sum_list (map f xs)"
  by (induction xs arbitrary: a) (simp_all add: add.assoc)

lemma reduce_avg_mean: "reduce_avg f xs = np_mean (map f xs)"
  by (simp add: reduce_avg_def np_mean_def foldl_add_sum)

lemma or0_id [simp]: "or0 x = x"
  by (simp add: or0_def)

lemma np_mean_nonneg: "\<forall>x\<in>set xs. 0 \<le> x \<Longrightarrow> 0 \<le> np_mean xs"
  by (simp add: np_mean_def sum_list_nonneg)

lemma np_var_nonneg: "0 \<le> np_var xs"
  unfolding np_var_def by (rule np_mean_nonneg) auto

lemma np_std_nonneg: "0 \<le> np_std xs"
  by (simp add: np_std_def np_var_nonneg)

text \<open>The fold behind \<open>max\<close> with a key returns an element of the list whose key no other
  element exceeds.\<close>

lemma foldl_max_by_aux:
  fixes f :: "'a \<Rightarrow> real"
  shows "foldl (\<lambda>best cur. if f cur > f best then cur else best) b xs \<in> insert b (set xs) \<and>
   f b \<le> f (foldl (\<lambda>best cur. if f cur > f best then cur else best) b xs) \<and>
   (\<forall>y \<in> set xs. f y \<le> f (foldl (\<lambda>best cur. if f cur > f best then cur else best) b xs))"
proof (induction xs arbitrary: b)
  case Nil
  show ?case by simp
next
  case (Cons x xs)
  let ?g = "\<lambda>best cur. if f cur > f best then cur else best"
  let ?b = "if f x > f b then x else b"
  have ih: "foldl ?g ?b xs \<in> insert ?b (set xs)" "f ?b \<le> f (foldl ?g ?b xs)"
    "\<forall>y\<in>set xs. f y \<le> f (foldl ?g ?b xs)"
    using Cons.IH [of ?b] by blast+
  have "f b \<le> f ?b" "f x \<le> f ?b" by auto
  with ih show ?case by (cases "f x > f b") auto
qed

lemma max_by_in: "xs \<noteq> [] \<Longrightarrow> max_by f xs \<in> set xs"
  using foldl_max_by_aux [of f "hd xs" "tl xs"] by (cases xs) (auto simp: max_by_def)

lemma max_by_greatest: "y \<in> set xs \<Longrightarrow> f y \<le> f (max_by f xs)"
  using foldl_max_by_aux [of f "hd xs" "tl xs"] by (cases xs) (auto simp: max_by_def)

lemma sum_list_map_sort_key:
  fixes f :: "'a \<Rightarrow> real"
  shows "sum_list (map f (sort_key g xs)) = sum_list (map f xs)"
proof -
  have ins: "sum_list (map f (insort_key g x ys)) = f x + sum_list (map f ys)" for x ys
    by (induction ys) simp_all
  show ?thesis by (induction xs) (simp_all add: ins)
qed

lemma zero_env_random [simp]: "math_random zero_env n = 0"
  by (simp add: zero_env_def)

lemma demo_pattern_zero:
  "demo_pattern zero_env i k =
     \<lparr>pid = pattern_id i, ptype = bullish, support = 1 / 50, confidence = 3 / 5,
      significance = 1 / 5, profitability = - (9 / 250), winRate = 51 / 100,
      avgReturn = - (1 / 50), maxDrawdown = 0, sharpeRatio = 0,
      pricePoints = replicate 20 0, duration = 20, frequency = 10,
      firstSeen = Some ''1970-01-01T00:00:00.000Z'',
      lastSeen = Some ''1970-01-01T00:00:00.000Z''\<rparr>"
  by (simp add: demo_pattern_def zero_env_def eval_nat_numeral)

lemma best_by_max_by: "ps \<noteq> [] \<Longrightarrow> best_by f ps (Some (pid (max_by f ps)))"
  unfolding best_by_def using max_by_in [of ps f] max_by_greatest [of _ ps f] by blast

lemma sorted_hd_least:
  fixes f :: "'a \<Rightarrow> real"
  assumes "xs \<noteq> []" "q \<in> set (sort_key f xs)"
  shows "f (hd (sort_key f xs)) \<le> f q"
proof -
  have s: "sorted (map f (sort_key f xs))" by (rule sorted_sort_key)
  from assms(1) have ne: "sort_key f xs \<noteq> []" by (metis length_sort length_0_conv)
  then obtain y ys where e: "sort_key f xs = y # ys" by (cases "sort_key f xs") auto
  with s assms(2) show ?thesis by auto
qed

lemma demo_patterns_length: "length (demo_patterns env) = demo_count env"
  by (simp add: demo_patterns_def Let_def)

lemma demo_patterns_nonempty: "demo_patterns env \<noteq> []"
proof -
  have "length (demo_patterns env) \<ge> 10" by (simp add: demo_patterns_length demo_count_def)
  then show ?thesis by auto
qed

lemma demo_result_patterns: "patterns (generateDemoResults env job) = demo_patterns env"
  by (simp add: generateDemoResults_def Let_def)

lemma demo_result_best:
  "bestPattern (stats (generateDemoResults env job)) = Some (pid (hd (demo_patterns env)))"
  using demo_patterns_nonempty [of env]
  by (cases "demo_patterns env") (simp_all add: generateDemoResults_def Let_def)

lemma demo_best_by: "best_by confidence (demo_patterns env) (Some (pid (hd (demo_patterns env))))"
proof -
  define made where "made = map (\<lambda>i. demo_pattern env i (1 + 32 * i)) [0..<demo_count env]"
  define key where "key = (\<lambda>p::pattern. - confidence p)"
  have s: "demo_patterns env = sort_key key made"
    by (simp add: demo_patterns_def Let_def made_def key_def)
  have ne: "made \<noteq> []" using demo_patterns_nonempty [of env] unfolding s
    by (metis length_sort length_0_conv)
  have "key (hd (sort_key key made)) \<le> key q" if "q \<in> set (sort_key key made)" for q
    using sorted_hd_least [OF ne that] .
  then have le: "\<forall>q\<in>set (demo_patterns env). confidence q \<le> confidence (hd (demo_patterns env))"
    unfolding s key_def by simp
  have "hd (demo_patterns env) \<in> set (demo_patterns env)"
    using demo_patterns_nonempty by (rule hd_in_set)
  with le show ?thesis unfolding best_by_def by blast
qed

lemma ts_aggregation: "ps \<noteq> [] \<Longrightarrow> avgConfidence (calculatePatternStatistics ps) = mean_of confidence ps \<and>
      best_by profitability ps (bestPattern (calculatePatternStatistics ps))"
    using best_by_max_by [of ps profitability]
    by (simp add: calculatePatternStatistics_def Let_def reduce_avg_mean np_mean_def mean_of_def)

lemma script_aggregation: "ps \<noteq> [] \<Longrightarrow> avgConfidence (full_statistics params ps) = mean_of confidence ps \<and>
      best_by profitability ps (bestPattern (full_statistics params ps))"
    using best_by_max_by [of ps profitability]
    by (simp add: full_statistics_def Let_def np_mean_def mean_of_def)

lemma zero_ts: "all_zero (calculatePatternStatistics [])" 
    by (simp_all add: all_zero_def calculatePatternStatistics_def zero_statistics_def)
lemma zero_first: "all_zero (calculate_statistics params [])"
    by (simp_all add: all_zero_def calculate_statistics_def)
lemma zero_second:    "all_zero (calculate_comprehensive_statistics params [])"
    by (simp_all add: all_zero_def calculate_comprehensive_statistics_def empty_statistics_def)

lemma demo_mean_confidence: "avgConfidence (stats (generateDemoResults env job)) =
     mean_of confidence (patterns (generateDemoResults env job))"
    by (simp add: generateDemoResults_def Let_def reduce_avg_mean np_mean_def mean_of_def)

lemma upt_10: "[0..<10] = [0, 1, 2, 3, 4, 5, 6, 7, 8, 9]"
  by code_simp

lemma demo_pattern_pid: "pid (demo_pattern env i k) = pattern_id i"
  by (simp add: demo_pattern_def Let_def)

lemma best_env_confidence:
  "confidence (demo_pattern best_env i (1 + 32 * i)) = (if i = 0 then 183 / 200 else 3 / 5)"
  by (simp add: demo_pattern_def Let_def best_env_def) presburger

lemma best_env_profitability:
  "profitability (demo_pattern best_env i (1 + 32 * i)) = (if i = 0 then - (9 / 250) else 9 / 125)"
  by (simp add: demo_pattern_def Let_def best_env_def)

lemma demo_best_patterns:
  "demo_patterns best_env = map (\<lambda>i. demo_pattern best_env i (1 + 32 * i)) [0..<10]"
proof -
  let ?made = "map (\<lambda>i. demo_pattern best_env i (1 + 32 * i)) [0..<10]"
  have n: "demo_count best_env = 10" by (simp add: demo_count_def best_env_def)
  have "sorted (map (\<lambda>p. - confidence p) ?made)"
    unfolding map_map o_def best_env_confidence upt_10 by simp
  then have "sort_key (\<lambda>p. - confidence p) ?made = ?made" by (rule sort_key_id_if_sorted)
  then show ?thesis
    unfolding demo_patterns_def Let_def n by simp
qed

lemma analyse_frame_empty:
  "extract_windows params data = Inr ws \<Longrightarrow> length ws < 10 \<Longrightarrow>
   empty_run (analyse_frame rnd sk params data g)"
  by (simp add: empty_run_def analyse_frame_def extract_patterns_def zero_first)

lemma run_complete_empty:
  "extract_sliding_windows params data = Inr ws \<Longrightarrow> length ws < 10 \<Longrightarrow>
   empty_run (run_complete_analysis rnd sk params data g)"
  by (simp add: empty_run_def run_complete_analysis_def extract_sliding_window_patterns_def
      zero_second)

lemma short_series_windows:
  "int (length data) \<le> windowSize params \<Longrightarrow> extract_windows params data = Inr []"
  by (simp add: extract_windows_def Let_def)

lemma short_series_sliding_windows:
  "int (length data) \<le> windowSize params \<Longrightarrow> extract_sliding_windows params data = Inr []"
  by (simp add: extract_sliding_windows_def Let_def)

lemma np_var_pair: "np_var [a, b] = ((a - b) / 2)\<^sup>2"
  by (simp add: np_var_def np_mean_def power2_eq_square field_simps)

lemma np_std_pair: "np_std [a, b] = \<bar>a - b\<bar> / 2"
  by (simp add: np_std_def np_var_pair real_sqrt_abs abs_divide)

lemma flat_closes: "map bar_close flat_frame = [1, 1, 1, 1, 1]"
  by (simp add: flat_frame_def)

lemma upt_3: "[0..<3] = [0, 1, 2]"
  by code_simp

lemma flat_windows: "extract_windows two_bar_params flat_frame = Inr []"
  by (simp add: extract_windows_def Let_def two_bar_params_def DEFAULT_MINING_PARAMS_def
      flat_closes upt_3 window_at_def np_std_pair flat_frame_def)

lemma minmax_flat: "minmax_scaler [1, 1] = [0, 0]"
  by (simp add: minmax_scaler_def Let_def)

lemma flat_sliding_windows: "extract_sliding_windows two_bar_params flat_frame = Inr []"
  by (simp add: extract_sliding_windows_def Let_def two_bar_params_def DEFAULT_MINING_PARAMS_def
      flat_closes upt_3 sliding_window_at_def calculate_pattern_features_def minmax_flat
      np_std_pair flat_frame_def)

lemma window_at_index: "w \<in> set (window_at closes n i) \<Longrightarrow> index w = i"
  by (auto simp: window_at_def Let_def split: if_splits)

lemma window_at_kept:
  "(window_at closes n i \<noteq> []) =
     (let win = take n (drop i closes)
      in hd win \<noteq> 0 \<and> np_std (map (\<lambda>x. (x - hd win) / hd win) win) > 1 / 10000)"
  by (simp add: window_at_def Let_def)

lemma sliding_window_at_index: "w \<in> set (sliding_window_at closes n i) \<Longrightarrow> start_idx w = i"
  by (auto simp: sliding_window_at_def Let_def split: if_splits)

lemma sliding_window_at_kept:
  "(sliding_window_at closes n i \<noteq> []) =
     (let normalized_prices = minmax_scaler (take n (drop i closes))
      in np_std normalized_prices + \<bar>last normalized_prices - hd normalized_prices\<bar> > 1 / 20)"
  by (simp add: sliding_window_at_def calculate_pattern_features_def Let_def)

lemma indices_of_concat:
  assumes "\<And>i w. w \<in> set (f i) \<Longrightarrow> key w = i"
  shows "(i \<in> key ` set (concat (map f [0..<n]))) = (i < n \<and> f i \<noteq> [])"
proof
  assume "i \<in> key ` set (concat (map f [0..<n]))"
  then obtain w j where "j < n" "w \<in> set (f j)" "key w = i" by auto
  with assms show "i < n \<and> f i \<noteq> []" by fastforce
next
  assume a: "i < n \<and> f i \<noteq> []"
  then obtain w where w: "w \<in> set (f i)" by (cases "f i") auto
  with assms have "key w = i" by blast
  with a w show "i \<in> key ` set (concat (map f [0..<n]))" by force
qed

lemma rise_closes: "map bar_close rise_frame = [100, 101, 101]"
  by (simp add: rise_frame_def)

lemma rise_windows:
  "extract_windows two_bar_params rise_frame =
     Inr [\<lparr>index = 0, normalized = [0, 1 / 100], trend = 1 / 100, volatility = 1 / 200,
           momentum = 1 / 100\<rparr>]"
  by (simp add: extract_windows_def Let_def two_bar_params_def DEFAULT_MINING_PARAMS_def
      rise_closes window_at_def np_std_pair np_mean_def rise_frame_def)

lemma zigzag_closes: "map bar_close zigzag_frame = [3, 2, 4, 3, 3, 3, 3, 3, 3]"
  by (simp add: zigzag_frame_def)

lemma zigzag_minmax:
  "minmax_scaler [3, 2, 4, 3, 3, 3, 3, 3] = [1 / 2, 0, 1, 1 / 2, 1 / 2, 1 / 2, 1 / 2, 1 / 2]"
  by (simp add: minmax_scaler_def Let_def)

lemma zigzag_std: "np_std [1 / 2, 0, 1, 1 / 2, 1 / 2, 1 / 2, 1 / 2, 1 / 2] = 1 / 4"
proof -
  have "np_var [1 / 2, 0, 1, 1 / 2, 1 / 2, 1 / 2, 1 / 2, 1 / 2] = (1 / 4)\<^sup>2"
    by (simp add: np_var_def np_mean_def power2_eq_square)
  then show ?thesis by (simp add: np_std_def real_sqrt_abs del: power_divide)
qed

lemma zigzag_strength:
  "f_pattern_strength (calculate_pattern_features [3, 2, 4, 3, 3, 3, 3, 3]) = 1 / 4"
  by (simp add: calculate_pattern_features_def Let_def zigzag_minmax zigzag_std)

lemma zigzag_windows:
  "extract_sliding_windows eight_bar_params zigzag_frame =
     Inr [\<lparr>start_idx = 0, end_idx = 8,
           feats = calculate_pattern_features [3, 2, 4, 3, 3, 3, 3, 3]\<rparr>]"
  by (simp add: extract_sliding_windows_def Let_def eight_bar_params_def
      DEFAULT_MINING_PARAMS_def zigzag_closes sliding_window_at_def zigzag_strength
      zigzag_frame_def)

lemma py_max_max [simp]: "py_max a b = max a b"
  by (simp add: py_max_def max_def)

lemma py_min_min [simp]: "py_min a b = min a b"
  by (simp add: py_min_def min_def)

lemma create_pattern_confidence:
  "confidence (fst (create_pattern rnd params cw c s g)) =
     max 0.5 (1 / (1 + np_std (map trend cw) * 1000))"
  by (simp add: create_pattern_def Let_def split_beta)

lemma create_representative_confidence:
  "confidence (fst (create_representative_pattern rnd sw c s g)) =
     max 0.5 (1 / (1 + np_var (map (\<lambda>w. f_trend (feats w)) sw) * 1000))"
  by (simp add: create_representative_pattern_def Let_def split_beta o_def)

lemma inverse_bound: "0 \<le> x \<Longrightarrow> 1 / (1 + x * 1000) \<le> (1::real)"
  by (simp add: divide_le_eq)

lemma wide_var: "np_var (map trend wide_cluster) = (1 / 2000)\<^sup>2"
  by (simp add: wide_cluster_def two_bar_window_def np_var_def np_mean_def power2_eq_square)

lemma narrow_var: "np_var (map trend narrow_cluster) = (1 / 4000)\<^sup>2"
  by (simp add: narrow_cluster_def two_bar_window_def np_var_def np_mean_def power2_eq_square)

lemma wide_std: "np_std (map trend wide_cluster) = 1 / 2000"
  unfolding np_std_def wide_var by (simp add: real_sqrt_abs del: power_divide)

lemma narrow_std: "np_std (map trend narrow_cluster) = 1 / 4000"
  unfolding np_std_def narrow_var by (simp add: real_sqrt_abs del: power_divide)

lemma bootstrap_means_length: "length (fst (bootstrap_means rnd ts n g)) = n"
  by (induction n arbitrary: g) (simp_all add: split_beta Let_def)

lemma sum_list_indicator:
  "sum_list (map (\<lambda>m. if P m then 1 else 0) ms) = real (length (filter P ms))"
  by (induction ms) simp_all

lemma p_value_of_fraction:
  "p_value_of ms obs = real (length (filter (\<lambda>m. \<bar>m\<bar> \<ge> \<bar>obs\<bar>) ms)) / real (length ms)"
  by (simp add: p_value_of_def np_mean_def sum_list_indicator)

lemma p_value_of_range: "0 \<le> p_value_of ms obs \<and> p_value_of ms obs \<le> 1"
proof -
  have "length (filter (\<lambda>m. \<bar>m\<bar> \<ge> \<bar>obs\<bar>) ms) \<le> length ms" by (rule length_filter_le)
  then have "real (length (filter (\<lambda>m. \<bar>m\<bar> \<ge> \<bar>obs\<bar>) ms)) \<le> real (length ms)" by simp
  then show ?thesis
    unfolding p_value_of_fraction by (cases "ms = []") (simp_all add: divide_le_eq)
qed

lemma create_pattern_significance:
  "significance (fst (create_pattern rnd params cw c s g)) =
     max 0.1 (1 - p_value_of (fst (bootstrap_means rnd (map trend cw) 100 g))
                    (np_mean (map trend cw)))"
  by (simp add: create_pattern_def Let_def split_beta)

text \<open>The loop of the script takes the mean of each resample in turn.\<close>

lemma resample_0: "resample rnd ts g 0 = fst (random_choice rnd ts g)"
  by (simp add: resample_def)

lemma resample_Suc:
  "resample rnd ts g (Suc k) = resample rnd ts (snd (random_choice rnd ts g)) k"
  by (simp add: resample_def funpow_Suc_right del: funpow.simps)

lemma bootstrap_means_resample:
  "fst (bootstrap_means rnd ts n g) =
     map (\<lambda>k. sum_list (resample rnd ts g k) / real (length (resample rnd ts g k))) [0..<n]"
proof (induction n arbitrary: g)
  case 0
  show ?case by simp
next
  case (Suc n)
  have "[0..<Suc n] = 0 # map Suc [0..<n]"
    by (simp add: upt_conv_Cons map_Suc_upt del: upt_Suc)
  then have "map (\<lambda>k. sum_list (resample rnd ts g k) / real (length (resample rnd ts g k))) [0..<Suc n]
      = np_mean (fst (random_choice rnd ts g))
        # map (\<lambda>k. sum_list (resample rnd ts (snd (random_choice rnd ts g)) k)
                     / real (length (resample rnd ts (snd (random_choice rnd ts g)) k))) [0..<n]"
    by (simp add: resample_0 resample_Suc np_mean_def o_def del: upt_Suc)
  also have "\<dots> = np_mean (fst (random_choice rnd ts g))
        # fst (bootstrap_means rnd ts n (snd (random_choice rnd ts g)))"
    by (simp only: Suc.IH)
  also have "\<dots> = fst (bootstrap_means rnd ts (Suc n) g)"
    by (simp add: split_beta Let_def)
  finally show ?case by simp
qed

lemma create_pattern_spec_significance:
  "significance (fst (create_pattern rnd params cw c s g)) =
     spec_significance rnd 100 (map trend cw) g"
proof -
  have "length (fst (bootstrap_means rnd (map trend cw) 100 g)) = 100"
    by (rule bootstrap_means_length)
  then show ?thesis
    unfolding create_pattern_significance spec_significance_def Let_def p_value_of_fraction
    by (simp add: bootstrap_means_resample np_mean_def)
qed

lemma create_pattern_ignores_bootstrapSamples:
  "create_pattern rnd (params\<lparr>bootstrapSamples := b\<rparr>) cw c s g =
     create_pattern rnd params cw c s g"
  by (simp add: create_pattern_def)

lemma create_representative_significance:
  "significance (fst (create_representative_pattern rnd sw c s g)) =
     min 0.99 (max 0.1 (\<bar>t_statistic (map (\<lambda>w. f_trend (feats w)) sw)\<bar> / 10))"
  by (simp add: create_representative_pattern_def Let_def split_beta o_def t_statistic_def)

lemma counting_bootstrap:
  "bootstrap_means counting_random ts n g = (replicate n (np_mean ts), g + n)"
  by (induction n arbitrary: g) (simp_all add: counting_random_def)

lemma counting_create_pattern_draws:
  "snd (create_pattern counting_random params cw c s g) = g + 101"
  by (simp add: create_pattern_def Let_def split_beta counting_bootstrap)
    (simp add: counting_random_def)

lemma steady_trends: "map (\<lambda>w. f_trend (feats w)) steady_cluster = [1, 1, 1, 1, 1]"
  by (simp add: steady_cluster_def calculate_pattern_features_def minmax_scaler_def Let_def)

lemma steady_t: "t_statistic [1, 1, 1, 1, 1] = 10 ^ 8"
  by (simp add: t_statistic_def np_std_def np_var_def np_mean_def)

lemma counting_resample: "resample counting_random ts g k = ts"
  by (simp add: resample_def counting_random_def)

lemma steady_spec:
  "spec_significance counting_random 1000 [1, 1, 1, 1, 1] 0 = 1 / 10"
  by (simp add: spec_significance_def counting_resample Let_def)

lemma cluster_members_subset: "set (cluster_members ws labels c) \<subseteq> set ws"
  by (auto simp: cluster_members_def)


lemma frequent_patterns_member:
  "p \<in> set (fst (frequent_patterns rnd params ws labels ids g)) \<Longrightarrow>
   \<exists>c g0. c \<in> set ids \<and>
     minSupport params \<le> real (length (cluster_members ws labels c)) / real (length ws) \<and>
     3 \<le> length (cluster_members ws labels c) \<and>
     p = fst (create_pattern rnd params (cluster_members ws labels c) c
               (real (length (cluster_members ws labels c)) / real (length ws)) g0)"
proof (induction ids arbitrary: g)
  case Nil
  then show ?case by simp
next
  case (Cons c ids)
  let ?cw = "cluster_members ws labels c"
  let ?supp = "real (length ?cw) / real (length ws)"
  show ?case
  proof (cases "minSupport params \<le> ?supp \<and> 3 \<le> length ?cw")
    case True
    let ?g1 = "snd (create_pattern rnd params ?cw c ?supp g)"
    from True Cons.prems
    have "p = fst (create_pattern rnd params ?cw c ?supp g) \<or>
          p \<in> set (fst (frequent_patterns rnd params ws labels ids ?g1))"
      by (simp add: Let_def split_beta)
    then show ?thesis
    proof
      assume "p = fst (create_pattern rnd params ?cw c ?supp g)"
      with True show ?thesis by auto
    next
      assume "p \<in> set (fst (frequent_patterns rnd params ws labels ids ?g1))"
      from Cons.IH [OF this] show ?thesis by auto
    qed
  next
    case False
    with Cons.prems have "p \<in> set (fst (frequent_patterns rnd params ws labels ids g))"
      by (auto simp: Let_def)
    from Cons.IH [OF this] show ?thesis by auto
  qed
qed

lemma frequent_clusters_member:
  "p \<in> set (fst (frequent_clusters rnd ms ws labels ids g)) \<Longrightarrow>
   \<exists>c g0. c \<in> set ids \<and>
     ms \<le> real (length (cluster_members ws labels c)) / real (length ws) \<and>
     5 \<le> length (cluster_members ws labels c) \<and>
     p = fst (create_representative_pattern rnd (cluster_members ws labels c) c
               (real (length (cluster_members ws labels c)) / real (length ws)) g0)"
proof (induction ids arbitrary: g)
  case Nil
  then show ?case by simp
next
  case (Cons c ids)
  let ?cw = "cluster_members ws labels c"
  let ?supp = "real (length ?cw) / real (length ws)"
  show ?case
  proof (cases "ms \<le> ?supp \<and> 5 \<le> length ?cw")
    case True
    let ?g1 = "snd (create_representative_pattern rnd ?cw c ?supp g)"
    from True Cons.prems
    have "p = fst (create_representative_pattern rnd ?cw c ?supp g) \<or>
          p \<in> set (fst (frequent_clusters rnd ms ws labels ids ?g1))"
      by (simp add: Let_def split_beta)
    then show ?thesis
    proof
      assume "p = fst (create_representative_pattern rnd ?cw c ?supp g)"
      with True show ?thesis by auto
    next
      assume "p \<in> set (fst (frequent_clusters rnd ms ws labels ids ?g1))"
      from Cons.IH [OF this] show ?thesis by auto
    qed
  next
    case False
    with Cons.prems have "p \<in> set (fst (frequent_clusters rnd ms ws labels ids g))"
      by (auto simp: Let_def)
    from Cons.IH [OF this] show ?thesis by auto
  qed
qed

lemma extract_patterns_member:
  assumes "extract_windows params data = Inr ws"
    and "extract_patterns rnd sk params data g = Inr (ps, g')" and "p \<in> set ps"
  shows "\<exists>c g0. c < cluster_count (length ws) \<and>
     minSupport params \<le> real (length (cluster_members ws (window_labels sk ws) c)) / real (length ws) \<and>
     3 \<le> length (cluster_members ws (window_labels sk ws) c) \<and>
     p = fst (create_pattern rnd params (cluster_members ws (window_labels sk ws) c) c
               (real (length (cluster_members ws (window_labels sk ws) c)) / real (length ws)) g0)"
proof -
  from assms have "ps = fst (frequent_patterns rnd params ws (window_labels sk ws)
                               [0..<cluster_count (length ws)] g)"
    by (auto simp: extract_patterns_def Let_def split: if_splits)
  with assms(3) frequent_patterns_member
    [of p rnd params ws "window_labels sk ws" "[0..<cluster_count (length ws)]" g]
  show ?thesis by auto
qed

lemma extract_sliding_member:
  assumes "extract_sliding_windows params data = Inr ws"
    and "extract_sliding_window_patterns rnd sk params data g = Inr (ps, g')" and "p \<in> set ps"
  shows "\<exists>c g0. c < optimal_clusters_of sk ws \<and>
     minSupport params \<le> real (length (cluster_members ws (final_labels sk ws) c)) / real (length ws) \<and>
     5 \<le> length (cluster_members ws (final_labels sk ws) c) \<and>
     p = fst (create_representative_pattern rnd (cluster_members ws (final_labels sk ws) c) c
               (real (length (cluster_members ws (final_labels sk ws) c)) / real (length ws)) g0)"
proof -
  from assms have "ps = fst (frequent_clusters rnd (minSupport params) ws (final_labels sk ws)
                               [0..<optimal_clusters_of sk ws] g)"
    by (auto simp: extract_sliding_window_patterns_def cluster_and_filter_patterns_def Let_def
        split: if_splits)
  with assms(3) frequent_clusters_member
    [of p rnd "minSupport params" ws "final_labels sk ws" "[0..<optimal_clusters_of sk ws]" g]
  show ?thesis by auto
qed




lemma standard_scaler_length:
  assumes "X \<noteq> []" "\<forall>r\<in>set X. length r = d" "0 < d"
  shows "length (standard_scaler X) = length X"
proof -
  let ?n = "length X"
  have t1: "transpose X = map (\<lambda>i. map (\<lambda>j. X ! j ! i) [0..<?n]) [0..<d]"
    using assms by (intro transpose_rectangle) auto
  let ?cols = "map scale_column (transpose X)"
  have l: "\<forall>i<length ?cols. length (?cols ! i) = ?n"
    by (simp add: t1 scale_column_def Let_def)
  have ne: "?cols \<noteq> []" using assms(3) by (simp add: t1)
  have "transpose ?cols = map (\<lambda>i. map (\<lambda>j. ?cols ! j ! i) [0..<length ?cols]) [0..<?n]"
    using l ne by (intro transpose_rectangle) auto
  then show ?thesis by (simp add: standard_scaler_def)
qed

lemma ramp_closes:
  "map bar_close ramp_frame = [100, 101, 102, 103, 104, 105, 106, 107, 108, 109, 110, 111]"
  by (simp add: ramp_frame_def)

lemma ramp_extract: "extract_windows two_bar_params ramp_frame = Inr ramp_windows"
  by (simp add: extract_windows_def Let_def two_bar_params_def DEFAULT_MINING_PARAMS_def
      ramp_closes upt_10 window_at_def np_std_pair np_mean_def ramp_windows_def
      two_bar_window_def ramp_frame_def)

lemma ramp_labels:
  "window_labels halving_sklearn ramp_windows = [0, 0, 0, 0, 0, 1, 1, 1, 1, 1]"
proof -
  let ?X = "map (\<lambda>w. [trend w, volatility w, momentum w]) ramp_windows"
  have "length (standard_scaler ?X) = length ?X"
    by (rule standard_scaler_length [where d = 3]) (simp_all add: ramp_windows_def)
  then have "length (standard_scaler ?X) = 10" by (simp add: ramp_windows_def)
  then show ?thesis
    by (simp add: window_labels_def Let_def halving_sklearn_def upt_10)
qed

lemma frequent_patterns_keep:
  "minSupport params \<le> real (length (cluster_members ws labels c)) / real (length ws) \<Longrightarrow>
   3 \<le> length (cluster_members ws labels c) \<Longrightarrow>
   hd (fst (frequent_patterns rnd params ws labels (c # ids) g)) =
     fst (create_pattern rnd params (cluster_members ws labels c) c
            (real (length (cluster_members ws labels c)) / real (length ws)) g) \<and>
   fst (frequent_patterns rnd params ws labels (c # ids) g) \<noteq> []"
  by (simp add: Let_def split_beta)

lemma ramp_cluster_size:
  "length (cluster_members ramp_windows (window_labels halving_sklearn ramp_windows) 0) = 5"
proof -
  have l: "length ramp_windows = 10" by (simp add: ramp_windows_def)
  show ?thesis unfolding cluster_members_def ramp_labels l upt_10 by simp
qed

lemma ramp_run_patterns:
  "ramp_run = Inr (frequent_patterns counting_random two_bar_params ramp_windows
                     (window_labels halving_sklearn ramp_windows) (0 # [1..<3]) 0)"
proof -
  have l: "length ramp_windows = 10" by (simp add: ramp_windows_def)
  have ll: "length (window_labels halving_sklearn ramp_windows) = 10" by (simp add: ramp_labels)
  have u: "[0..<3] = 0 # [1..<3]" by (simp add: upt_conv_Cons)
  show ?thesis
    unfolding ramp_run_def extract_patterns_def ramp_extract Let_def
    by (simp add: l ll cluster_count_def u del: frequent_patterns.simps)
qed

lemma ramp_run_head:
  "hd (fst (projr ramp_run)) =
     fst (create_pattern counting_random two_bar_params
            (cluster_members ramp_windows (window_labels halving_sklearn ramp_windows) 0) 0
            (1 / 2) 0) \<and>
   fst (projr ramp_run) \<noteq> []"
proof -
  have l: "length ramp_windows = 10" by (simp add: ramp_windows_def)
  have m: "minSupport two_bar_params = 1 / 20"
    by (simp add: two_bar_params_def DEFAULT_MINING_PARAMS_def)
  show ?thesis
    unfolding ramp_run_patterns
    using frequent_patterns_keep [of two_bar_params ramp_windows
        "window_labels halving_sklearn ramp_windows" 0 counting_random "[1..<3]" 0]
    by (simp add: ramp_cluster_size l m)
qed

lemma rising_minmax: "a < b \<Longrightarrow> minmax_scaler [a, b] = [0, 1]"
  by (simp add: minmax_scaler_def Let_def)

lemma rising_strength:
  "a < b \<Longrightarrow> f_pattern_strength (calculate_pattern_features [a, b]) = 3 / 2"
  by (simp add: calculate_pattern_features_def Let_def rising_minmax np_std_pair)

lemma pair_finite: "f_finite (calculate_pattern_features [a, b]) = (a \<noteq> 0)"
  by (simp add: calculate_pattern_features_def Let_def)

lemma ramp_sliding_extract:
  "extract_sliding_windows two_bar_params ramp_frame = Inr ramp_sliding_windows"
  by (simp add: extract_sliding_windows_def Let_def two_bar_params_def DEFAULT_MINING_PARAMS_def
      ramp_closes upt_10 sliding_window_at_def rising_strength ramp_sliding_windows_def
      ramp_frame_def)

lemma ramp_sliding_finite: "list_all (\<lambda>w. f_finite (feats w)) ramp_sliding_windows"
  by (simp add: ramp_sliding_windows_def pair_finite)

lemma ramp_scaled_length:
  "length (standard_scaler (feature_matrix_of ramp_sliding_windows)) = 10"
proof -
  have "length (standard_scaler (feature_matrix_of ramp_sliding_windows)) =
        length (feature_matrix_of ramp_sliding_windows)"
    by (rule standard_scaler_length [where d = 6])
      (simp_all add: feature_matrix_of_def ramp_sliding_windows_def Let_def)
  then show ?thesis by (simp add: feature_matrix_of_def ramp_sliding_windows_def)
qed

lemma ramp_optimal: "optimal_clusters_of halving_sklearn ramp_sliding_windows = 3"
proof -
  have l: "length ramp_sliding_windows = 10" by (simp add: ramp_sliding_windows_def)
  have c: "cluster_range 10 = [3]" by (simp add: cluster_range_def Let_def upt_conv_Cons)
  show ?thesis
    unfolding optimal_clusters_of_def Let_def l c by (simp add: argmax_def)
qed

lemma ramp_final_labels:
  "final_labels halving_sklearn ramp_sliding_windows = [0, 0, 0, 0, 0, 1, 1, 1, 1, 1]"
  unfolding final_labels_def ramp_optimal
  by (simp add: halving_sklearn_def ramp_scaled_length upt_10)

lemma ramp_sliding_cluster_size:
  "length (cluster_members ramp_sliding_windows
             (final_labels halving_sklearn ramp_sliding_windows) 0) = 5"
proof -
  have l: "length ramp_sliding_windows = 10" by (simp add: ramp_sliding_windows_def)
  show ?thesis unfolding cluster_members_def ramp_final_labels l upt_10 by simp
qed

lemma frequent_clusters_keep:
  "ms \<le> real (length (cluster_members ws labels c)) / real (length ws) \<Longrightarrow>
   5 \<le> length (cluster_members ws labels c) \<Longrightarrow>
   hd (fst (frequent_clusters rnd ms ws labels (c # ids) g)) =
     fst (create_representative_pattern rnd (cluster_members ws labels c) c
            (real (length (cluster_members ws labels c)) / real (length ws)) g) \<and>
   fst (frequent_clusters rnd ms ws labels (c # ids) g) \<noteq> []"
  by (simp add: Let_def split_beta)

lemma ramp_sliding_run_patterns:
  "ramp_sliding_run =
     Inr (frequent_clusters counting_random (minSupport two_bar_params) ramp_sliding_windows
            (final_labels halving_sklearn ramp_sliding_windows) (0 # [1..<3]) 0)"
proof -
  have l: "length ramp_sliding_windows = 10" by (simp add: ramp_sliding_windows_def)
  have ll: "length (final_labels halving_sklearn ramp_sliding_windows) = 10"
    by (simp add: ramp_final_labels)
  have u: "[0..<3] = 0 # [1..<3]" by (simp add: upt_conv_Cons)
  show ?thesis
    unfolding ramp_sliding_run_def extract_sliding_window_patterns_def ramp_sliding_extract
      cluster_and_filter_patterns_def Let_def
    by (simp add: l ll u ramp_sliding_finite ramp_optimal del: frequent_clusters.simps)
qed

lemma ramp_sliding_run_head:
  "hd (fst (projr ramp_sliding_run)) =
     fst (create_representative_pattern counting_random
            (cluster_members ramp_sliding_windows
               (final_labels halving_sklearn ramp_sliding_windows) 0) 0 (1 / 2) 0) \<and>
   fst (projr ramp_sliding_run) \<noteq> []"
proof -
  have l: "length ramp_sliding_windows = 10" by (simp add: ramp_sliding_windows_def)
  have m: "minSupport two_bar_params = 1 / 20"
    by (simp add: two_bar_params_def DEFAULT_MINING_PARAMS_def)
  show ?thesis
    unfolding ramp_sliding_run_patterns
    using frequent_clusters_keep [of "minSupport two_bar_params" ramp_sliding_windows
        "final_labels halving_sklearn ramp_sliding_windows" 0 counting_random "[1..<3]" 0]
    by (simp add: ramp_sliding_cluster_size l m)
qed

lemma create_pattern_sharpe:
  "sharpeRatio (fst (create_pattern rnd params cw c s g)) =
     max 0 (profitability (fst (create_pattern rnd params cw c s g))
            / (np_mean (map volatility cw) + 0.001))"
  by (simp add: create_pattern_def Let_def split_beta)

lemma create_representative_sharpe:
  "sharpeRatio (fst (create_representative_pattern rnd sw c s g)) =
     max 0 (profitability (fst (create_representative_pattern rnd sw c s g))
            / (np_mean (map (\<lambda>w. f_volatility (feats w)) sw) + 0.001))"
  by (simp add: create_representative_pattern_def Let_def split_beta o_def)

lemma clamped_ratio:
  fixes a v :: real
  assumes "0 \<le> v"
  shows "0 \<le> max 0 (a / (v + 0.001)) \<and> (a < 0 \<longrightarrow> max 0 (a / (v + 0.001)) = 0)"
proof -
  from assms have "0 < v + 0.001" by simp
  then have "a < 0 \<Longrightarrow> a / (v + 0.001) < 0" by (simp add: divide_neg_pos)
  then show ?thesis by auto
qed

lemma extract_windows_volatility:
  "extract_windows params data = Inr ws \<Longrightarrow> w \<in> set ws \<Longrightarrow> 0 \<le> volatility w"
  by (auto simp: extract_windows_def window_at_def Let_def np_std_nonneg split: if_splits)

lemma extract_sliding_volatility:
  "extract_sliding_windows params data = Inr ws \<Longrightarrow> w \<in> set ws \<Longrightarrow>
   0 \<le> f_volatility (feats w)"
  by (auto simp: extract_sliding_windows_def sliding_window_at_def
      calculate_pattern_features_def Let_def np_std_nonneg split: if_splits)

lemma demo_pattern_sharpe:
  "sharpeRatio (demo_pattern env i k) = max 0 ((math_random env (k + 28) - 0.15) * 2.5)"
  by (simp add: demo_pattern_def Let_def)

lemma demo_patterns_set:
  "set (demo_patterns env) = (\<lambda>i. demo_pattern env i (1 + 32 * i)) ` {0..<demo_count env}"
  by (simp add: demo_patterns_def Let_def)































section \<open>Cluster validity\<close>



section \<open>Significance\<close>

text \<open>
  C2, as the code has it. The first script computes the significance of a cluster by the
  bootstrap of the specification with the fixed number of 100 resamples: resample \<open>k\<close> is
  the library's draw from the trends in the generator state that the \<open>k\<close> draws before it
  have left, its mean is its sum over its length, the p-value is the fraction of the 100
  means that are at least the observed mean in absolute value, and the significance is
  \<open>max(0.1, 1 - p_value)\<close>. The parameter \<open>bootstrapSamples\<close> has no influence on the
  pattern. The second script uses no resampling: its significance is
  \<open>min(0.99, max(0.1, |t| / 10))\<close> for the t statistic of the trends. The significance
  lies in \<open>[0.1, 1]\<close> in the first and in \<open>[0.1, 0.99]\<close> in the second script, so
  \<open>0 < significance \<le> 1\<close> for every pattern.
\<close>

theorem significance_formula:
  "significance (fst (create_pattern rnd params cw c s g)) =
     spec_significance rnd 100 (map trend cw) g \<and>
   create_pattern rnd (params\<lparr>bootstrapSamples := b\<rparr>) cw c s g =
     create_pattern rnd params cw c s g \<and>
   significance (fst (create_representative_pattern rnd sw c s g)) =
     min 0.99 (max 0.1 (\<bar>t_statistic (map (\<lambda>w. f_trend (feats w)) sw)\<bar> / 10)) \<and>
   1 / 10 \<le> significance (fst (create_pattern rnd params cw c s g)) \<and>
   significance (fst (create_pattern rnd params cw c s g)) \<le> 1 \<and>
   1 / 10 \<le> significance (fst (create_representative_pattern rnd sw c s g)) \<and>
   significance (fst (create_representative_pattern rnd sw c s g)) \<le> 99 / 100"
proof -
  have "1 / 10 \<le> significance (fst (create_pattern rnd params cw c s g)) \<and>
        significance (fst (create_pattern rnd params cw c s g)) \<le> 1"
    using p_value_of_range [of "fst (bootstrap_means rnd (map trend cw) 100 g)"
        "np_mean (map trend cw)"]
    unfolding create_pattern_significance by simp
  moreover have "1 / 10 \<le> significance (fst (create_representative_pattern rnd sw c s g)) \<and>
        significance (fst (create_representative_pattern rnd sw c s g)) \<le> 99 / 100"
    unfolding create_representative_significance by simp
  ultimately show ?thesis
    using create_pattern_spec_significance [of rnd params cw c s g]
      create_representative_significance [of rnd sw c s g]
    by (simp add: create_pattern_ignores_bootstrapSamples)
qed

text \<open>
  With 1000 bootstrap samples configured, \<open>create_pattern\<close> makes 101 draws (100 resamples
  and the noise of the profitability). In the second script a cluster whose trends are all
  1 gets the significance 0.99, where the bootstrap gives 0.1: every resample has the mean
  of the cluster.
\<close>

theorem significance_formula_counterexample:
  "bootstrapSamples DEFAULT_MINING_PARAMS = 1000 \<and>
   snd (create_pattern counting_random DEFAULT_MINING_PARAMS wide_cluster 0 (1 / 2) 0) = 101 \<and>
   map (\<lambda>w. f_trend (feats w)) steady_cluster = [1, 1, 1, 1, 1] \<and>
   significance (fst (create_representative_pattern counting_random steady_cluster 0 1 0))
     = 99 / 100 \<and>
   spec_significance counting_random 1000 [1, 1, 1, 1, 1] 0 = 1 / 10"
  by (simp add: counting_create_pattern_draws create_representative_significance steady_trends
      steady_t steady_spec DEFAULT_MINING_PARAMS_def)

section \<open>Reproducibility\<close>




section \<open>Aggregation\<close>

text \<open>
  C4, as the code has it. For a non-empty pattern list, \<open>calculatePatternStatistics\<close> and the
  aggregators of both scripts report as \<open>avgConfidence\<close> the arithmetic mean of the
  confidences and as \<open>bestPattern\<close> the id of a pattern of maximal profitability. For the
  empty list each of them returns a structure whose entries are all zero or empty, without
  raising. The demo generator never has an empty list; its \<open>avgConfidence\<close> is the mean
  as well, but its \<open>bestPattern\<close> is the id of a pattern of maximal confidence.
\<close>

theorem aggregation:
  "(ps \<noteq> [] \<longrightarrow>
      avgConfidence (calculatePatternStatistics ps) = mean_of confidence ps \<and>
      best_by profitability ps (bestPattern (calculatePatternStatistics ps)) \<and>
      avgConfidence (calculate_statistics params ps) = mean_of confidence ps \<and>
      best_by profitability ps (bestPattern (calculate_statistics params ps)) \<and>
      avgConfidence (calculate_comprehensive_statistics params ps) = mean_of confidence ps \<and>
      best_by profitability ps (bestPattern (calculate_comprehensive_statistics params ps))) \<and>
   all_zero (calculatePatternStatistics []) \<and>
   all_zero (calculate_statistics params []) \<and>
   all_zero (calculate_comprehensive_statistics params []) \<and>
   patterns (generateDemoResults env job) \<noteq> [] \<and>
   avgConfidence (stats (generateDemoResults env job)) =
     mean_of confidence (patterns (generateDemoResults env job)) \<and>
   best_by confidence (patterns (generateDemoResults env job))
     (bestPattern (stats (generateDemoResults env job)))"
proof -
  have a: "ps \<noteq> [] \<longrightarrow>
      avgConfidence (calculatePatternStatistics ps) = mean_of confidence ps \<and>
      best_by profitability ps (bestPattern (calculatePatternStatistics ps)) \<and>
      avgConfidence (calculate_statistics params ps) = mean_of confidence ps \<and>
      best_by profitability ps (bestPattern (calculate_statistics params ps)) \<and>
      avgConfidence (calculate_comprehensive_statistics params ps) = mean_of confidence ps \<and>
      best_by profitability ps (bestPattern (calculate_comprehensive_statistics params ps))"
    using ts_aggregation [of ps] script_aggregation [of ps params]
    by (simp add: calculate_statistics_def calculate_comprehensive_statistics_def)
  have b: "patterns (generateDemoResults env job) \<noteq> []"
    by (simp add: demo_result_patterns demo_patterns_nonempty)
  have c: "best_by confidence (patterns (generateDemoResults env job))
     (bestPattern (stats (generateDemoResults env job)))"
    unfolding demo_result_patterns demo_result_best by (rule demo_best_by)
  from a b c zero_ts zero_first [of params] zero_second [of params]
    demo_mean_confidence [of env job] show ?thesis by blast
qed

theorem aggregation_witness:
  "[example_pattern] \<noteq> [] \<and>
   best_by profitability [example_pattern]
     (bestPattern (calculatePatternStatistics [example_pattern])) \<and>
   bestPattern (calculatePatternStatistics [example_pattern]) = Some ''pattern_000''"
  using aggregation [of "[example_pattern]" DEFAULT_MINING_PARAMS zero_env "''job''"]
  by (simp add: best_by_def example_pattern_def)

text \<open>
  In the demo generator the best pattern is the head of the list sorted by confidence. In
  this run it is \<open>pattern_000\<close>, whose profitability -0.036 is the least of all.
\<close>

theorem aggregation_counterexample:
  "bestPattern (stats demo_best) = Some ''pattern_000'' \<and>
   map pid (patterns demo_best) =
     [''pattern_000'', ''pattern_001'', ''pattern_002'', ''pattern_003'', ''pattern_004'',
      ''pattern_005'', ''pattern_006'', ''pattern_007'', ''pattern_008'', ''pattern_009''] \<and>
   map profitability (patterns demo_best) =
     [- (9 / 250), 9 / 125, 9 / 125, 9 / 125, 9 / 125, 9 / 125, 9 / 125, 9 / 125, 9 / 125, 9 / 125] \<and>
   map confidence (patterns demo_best) =
     [183 / 200, 3 / 5, 3 / 5, 3 / 5, 3 / 5, 3 / 5, 3 / 5, 3 / 5, 3 / 5, 3 / 5]"
proof -
  have p: "patterns demo_best = demo_patterns best_env"
    by (simp add: demo_best_def demo_result_patterns)
  have ids: "map pid (demo_patterns best_env) =
     [''pattern_000'', ''pattern_001'', ''pattern_002'', ''pattern_003'', ''pattern_004'',
      ''pattern_005'', ''pattern_006'', ''pattern_007'', ''pattern_008'', ''pattern_009'']"
    unfolding demo_best_patterns map_map o_def demo_pattern_pid upt_10
    by (simp add: pattern_id_def pad_left_def dec_str.simps digit_char_def numeral_2_eq_2)
  have "bestPattern (stats demo_best) = Some (hd (map pid (demo_patterns best_env)))"
    unfolding demo_best_def demo_result_best using demo_patterns_nonempty [of best_env]
    by (simp add: hd_map)
  then have b: "bestPattern (stats demo_best) = Some ''pattern_000''"
    unfolding ids by simp
  have pr: "map profitability (demo_patterns best_env) =
     [- (9 / 250), 9 / 125, 9 / 125, 9 / 125, 9 / 125, 9 / 125, 9 / 125, 9 / 125, 9 / 125, 9 / 125]"
    unfolding demo_best_patterns map_map o_def best_env_profitability upt_10 by simp
  have co: "map confidence (demo_patterns best_env) =
     [183 / 200, 3 / 5, 3 / 5, 3 / 5, 3 / 5, 3 / 5, 3 / 5, 3 / 5, 3 / 5, 3 / 5]"
    unfolding demo_best_patterns map_map o_def best_env_confidence upt_10 by simp
  from ids b pr co show ?thesis unfolding p by simp
qed

section \<open>Out-of-sample discount\<close>

text \<open>
  C5, as the code has it. The statistics of \<open>calculatePatternStatistics\<close> and of
  \<open>calculate_comprehensive_statistics\<close> carry out-of-sample figures equal to the average
  win rate times 0.85, the overall profitability times 0.80 and the average Sharpe ratio
  times 0.75, for every pattern list (for the empty one all of them are 0).
  \<open>calculate_statistics\<close> of the first script does so for every non-empty pattern list; for
  the empty list its dictionary has no out-of-sample entry at all.
\<close>

theorem out_of_sample_discount:
  "discounted (calculatePatternStatistics ps) \<and>
   discounted (calculate_comprehensive_statistics config ps) \<and>
   (ps \<noteq> [] \<longrightarrow> discounted (calculate_statistics params ps)) \<and>
   outOfSampleResults (calculate_statistics params []) = None"
  by (simp add: discounted_def calculatePatternStatistics_def zero_statistics_def Let_def
      calculate_comprehensive_statistics_def empty_statistics_def full_statistics_def
      calculate_statistics_def)

theorem out_of_sample_discount_witness:
  "[example_pattern] \<noteq> [] \<and>
   discounted (calculate_statistics DEFAULT_MINING_PARAMS [example_pattern])"
  using out_of_sample_discount [of "[example_pattern]" DEFAULT_MINING_PARAMS DEFAULT_MINING_PARAMS]
  by simp

text \<open>
  The demo generator does not discount: with every random draw equal to 0 its ten patterns
  have the win rate 0.51, so the average is 0.51, and the out-of-sample win rate is the
  fresh draw \<open>0 * 0.25 + 0.45 = 0.45\<close>, not \<open>0.51 * 0.85\<close>.
\<close>

theorem out_of_sample_discount_counterexample:
  "avgWinRate (stats demo_zero) = Some (51 / 100) \<and>
   map_option oos_winRate (outOfSampleResults (stats demo_zero)) = Some (45 / 100) \<and>
   \<not> discounted (stats demo_zero)"
proof -
  have a: "avgWinRate (stats demo_zero) = Some (51 / 100)"
    by (simp add: demo_zero_def generateDemoResults_def demo_patterns_def demo_count_def
        Let_def reduce_avg_mean np_mean_def sum_list_map_sort_key demo_pattern_zero o_def
        sum_list_triv)
  have b: "map_option oos_winRate (outOfSampleResults (stats demo_zero)) = Some (45 / 100)"
    by (simp add: demo_zero_def generateDemoResults_def demo_count_def Let_def)
  from a b have "\<not> discounted (stats demo_zero)"
    by (auto simp: discounted_def split: option.splits)
  with a b show ?thesis by simp
qed

section \<open>Insufficient data\<close>

text \<open>
  C6. When the series is no longer than the window size, both scripts extract no window,
  and the run ends without an error, with an empty pattern list and statistics whose
  entries are all zero or empty (\<open>totalPatterns = 0\<close> among them). The same holds whenever
  the window loop ends with fewer than 10 surviving windows.
\<close>

theorem insufficient_data:
  "(int (length data) \<le> windowSize params \<longrightarrow>
      extract_windows params data = Inr [] \<and>
      empty_run (analyse_frame rnd sk params data g) \<and>
      extract_sliding_windows params data = Inr [] \<and>
      empty_run (run_complete_analysis rnd sk params data g)) \<and>
   (extract_windows params data = Inr ws \<longrightarrow> length ws < 10 \<longrightarrow>
      empty_run (analyse_frame rnd sk params data g)) \<and>
   (extract_sliding_windows params data = Inr sws \<longrightarrow> length sws < 10 \<longrightarrow>
      empty_run (run_complete_analysis rnd sk params data g))"
proof -
  have "empty_run (analyse_frame rnd sk params data g)"
    if "int (length data) \<le> windowSize params"
    using analyse_frame_empty [OF short_series_windows [OF that], of rnd sk g] by simp
  moreover have "empty_run (run_complete_analysis rnd sk params data g)"
    if "int (length data) \<le> windowSize params"
    using run_complete_empty [OF short_series_sliding_windows [OF that], of rnd sk g] by simp
  ultimately show ?thesis
    using short_series_windows [of data params] short_series_sliding_windows [of data params]
      analyse_frame_empty [of params data ws rnd sk g]
      run_complete_empty [of params data sws rnd sk g]
    by blast
qed

theorem insufficient_data_witness:
  "int (length flat_frame) \<le> windowSize DEFAULT_MINING_PARAMS \<and>
   empty_run (analyse_frame counting_random halving_sklearn DEFAULT_MINING_PARAMS flat_frame 0) \<and>
   empty_run (run_complete_analysis counting_random halving_sklearn DEFAULT_MINING_PARAMS
                flat_frame 0) \<and>
   extract_windows two_bar_params flat_frame = Inr [] \<and> length ([] :: window list) < 10 \<and>
   empty_run (analyse_frame counting_random halving_sklearn two_bar_params flat_frame 0) \<and>
   extract_sliding_windows two_bar_params flat_frame = Inr [] \<and>
   length ([] :: sliding_window list) < 10 \<and>
   empty_run (run_complete_analysis counting_random halving_sklearn two_bar_params flat_frame 0)"
  using insufficient_data [of flat_frame DEFAULT_MINING_PARAMS counting_random halving_sklearn 0]
    insufficient_data [of flat_frame two_bar_params counting_random halving_sklearn 0 "[]" "[]"]
    flat_windows flat_sliding_windows
  by (simp add: flat_frame_def DEFAULT_MINING_PARAMS_def)

section \<open>Validation at the submit endpoint\<close>

text \<open>
  C7, as the code has it. The handler answers a parsed body with status 400 exactly when
  \<open>currencyPair\<close> or \<open>timeFrame\<close> is missing, and with status 200 and a submitted job
  otherwise. \<open>windowSize\<close>, \<open>minSupport\<close> and \<open>bootstrapSamples\<close> are not examined: changing
  them changes neither the status nor the success flag.
\<close>

theorem submit_validation:
  "http_status (POST (BodyParams p) auth outcome now) =
     (if rp_currencyPair p = None \<or> rp_timeFrame p = None then 400 else 200) \<and>
   resp_success (POST (BodyParams p) auth outcome now) =
     (rp_currencyPair p \<noteq> None \<and> rp_timeFrame p \<noteq> None) \<and>
   http_status (POST (BodyParams (p\<lparr>rp_windowSize := w, rp_minSupport := m,
                                    rp_bootstrapSamples := b\<rparr>)) auth outcome now) =
     http_status (POST (BodyParams p) auth outcome now) \<and>
   resp_success (POST (BodyParams (p\<lparr>rp_windowSize := w, rp_minSupport := m,
                                     rp_bootstrapSamples := b\<rparr>)) auth outcome now) =
     resp_success (POST (BodyParams p) auth outcome now)"
  by (simp add: POST_def Let_def)

text \<open>
  A request with window size -5, minimum support 7 and 0 bootstrap samples is accepted: the
  answer is 200 with a job id (here the fallback id, Kaggle having refused the push).
\<close>

theorem submit_validation_counterexample:
  "POST (BodyParams out_of_range_request) None PushNotOk 1700000000000 =
     \<lparr>http_status = 200, resp_success = True, resp_error = None,
      resp_data = Some \<lparr>sd_jobId = ''netszy/forex-pattern-1700000000000'',
                        sd_estimatedTime = 255, sd_status = ''submitted''\<rparr>\<rparr>"
  by (simp add: POST_def Let_def out_of_range_request_def submitPatternMiningJob_def
      getEstimatedExecutionTime_def dec_str.simps digit_char_def)

section \<open>The noise filter\<close>

text \<open>
  C8, as the code has it. The first script keeps the window at start index \<open>i\<close> exactly when
  its first close is not 0 and the standard deviation of its closes, taken relative to the
  first, exceeds the constant 0.0001. The second script keeps it exactly when its pattern
  strength (the standard deviation of the min-max scaled closes plus the absolute difference
  of the last and the first of them) exceeds the constant 0.05. Neither reads the
  \<open>noiseFilter\<close> parameter.
\<close>

theorem noise_filter:
  "(0 < windowSize params \<longrightarrow> i < nat (int (length data) - windowSize params) \<longrightarrow>
      extract_windows params data = Inr ws \<longrightarrow>
      (i \<in> index ` set ws) =
        (let win = take (nat (windowSize params)) (drop i (map bar_close data))
         in hd win \<noteq> 0 \<and> np_std (map (\<lambda>x. (x - hd win) / hd win) win) > 1 / 10000)) \<and>
   (0 < windowSize params \<longrightarrow> i < nat (int (length data) - windowSize params) \<longrightarrow>
      extract_sliding_windows params data = Inr sws \<longrightarrow>
      (i \<in> start_idx ` set sws) =
        (let normalized_prices =
               minmax_scaler (take (nat (windowSize params)) (drop i (map bar_close data)))
         in np_std normalized_prices + \<bar>last normalized_prices - hd normalized_prices\<bar>
              > 1 / 20)) \<and>
   extract_windows (params\<lparr>noiseFilter := x\<rparr>) data = extract_windows params data \<and>
   extract_sliding_windows (params\<lparr>noiseFilter := x\<rparr>) data =
     extract_sliding_windows params data"
proof -
  let ?w = "nat (windowSize params)"
  let ?n = "nat (int (length data) - windowSize params)"
  let ?c = "map bar_close data"
  have a: "(i \<in> index ` set ws) = (window_at ?c ?w i \<noteq> [])"
    if "0 < windowSize params" "i < ?n" "extract_windows params data = Inr ws"
  proof -
    from that have "ws = concat (map (window_at ?c ?w) [0..<?n])"
      by (simp add: extract_windows_def Let_def split: if_splits)
    then show ?thesis
      using indices_of_concat [of "window_at ?c ?w" index i ?n] window_at_index that(2)
      by blast
  qed
  have b: "(i \<in> start_idx ` set sws) = (sliding_window_at ?c ?w i \<noteq> [])"
    if "0 < windowSize params" "i < ?n" "extract_sliding_windows params data = Inr sws"
  proof -
    from that have "sws = concat (map (sliding_window_at ?c ?w) [0..<?n])"
      by (simp add: extract_sliding_windows_def Let_def split: if_splits)
    then show ?thesis
      using indices_of_concat [of "sliding_window_at ?c ?w" start_idx i ?n]
        sliding_window_at_index that(2)
      by blast
  qed
  have c: "extract_windows (params\<lparr>noiseFilter := x\<rparr>) data = extract_windows params data"
    "extract_sliding_windows (params\<lparr>noiseFilter := x\<rparr>) data =
       extract_sliding_windows params data"
    by (simp_all add: extract_windows_def extract_sliding_windows_def)
  from a b c show ?thesis
    unfolding window_at_kept sliding_window_at_kept by blast
qed

theorem noise_filter_witness:
  "0 < windowSize two_bar_params \<and>
   0 < nat (int (length rise_frame) - windowSize two_bar_params) \<and>
   extract_windows two_bar_params rise_frame =
     Inr [\<lparr>index = 0, normalized = [0, 1 / 100], trend = 1 / 100, volatility = 1 / 200,
           momentum = 1 / 100\<rparr>] \<and>
   (let win = take (nat (windowSize two_bar_params)) (drop 0 (map bar_close rise_frame))
    in hd win \<noteq> 0 \<and> np_std (map (\<lambda>x. (x - hd win) / hd win) win) > 1 / 10000) \<and>
   0 < windowSize eight_bar_params \<and>
   0 < nat (int (length zigzag_frame) - windowSize eight_bar_params) \<and>
   extract_sliding_windows eight_bar_params zigzag_frame =
     Inr [\<lparr>start_idx = 0, end_idx = 8,
           feats = calculate_pattern_features [3, 2, 4, 3, 3, 3, 3, 3]\<rparr>] \<and>
   (let normalized_prices =
          minmax_scaler (take (nat (windowSize eight_bar_params))
                           (drop 0 (map bar_close zigzag_frame)))
    in np_std normalized_prices + \<bar>last normalized_prices - hd normalized_prices\<bar> > 1 / 20)"
proof -
  let ?w = "\<lparr>index = 0, normalized = [0, 1 / 100], trend = 1 / 100, volatility = 1 / 200,
             momentum = 1 / 100\<rparr>"
  let ?s = "\<lparr>start_idx = 0, end_idx = 8,
             feats = calculate_pattern_features [3, 2, 4, 3, 3, 3, 3, 3]\<rparr>"
  have a: "0 < windowSize two_bar_params"
    "0 < nat (int (length rise_frame) - windowSize two_bar_params)"
    "0 < windowSize eight_bar_params"
    "0 < nat (int (length zigzag_frame) - windowSize eight_bar_params)"
    by (simp_all add: two_bar_params_def eight_bar_params_def DEFAULT_MINING_PARAMS_def
        rise_frame_def zigzag_frame_def)
  have "(0 \<in> index ` set [?w]) =
    (let win = take (nat (windowSize two_bar_params)) (drop 0 (map bar_close rise_frame))
     in hd win \<noteq> 0 \<and> np_std (map (\<lambda>x. (x - hd win) / hd win) win) > 1 / 10000)"
    using noise_filter [of two_bar_params 0 rise_frame "[?w]" "[]" 0] a(1,2) rise_windows
    by blast
  then have b: "let win = take (nat (windowSize two_bar_params)) (drop 0 (map bar_close rise_frame))
     in hd win \<noteq> 0 \<and> np_std (map (\<lambda>x. (x - hd win) / hd win) win) > 1 / 10000"
    by simp
  have "(0 \<in> start_idx ` set [?s]) =
    (let normalized_prices =
          minmax_scaler (take (nat (windowSize eight_bar_params))
                           (drop 0 (map bar_close zigzag_frame)))
     in np_std normalized_prices + \<bar>last normalized_prices - hd normalized_prices\<bar> > 1 / 20)"
    using noise_filter [of eight_bar_params 0 zigzag_frame "[]" "[?s]" 0] a(3,4) zigzag_windows
    by blast
  then have c: "let normalized_prices =
          minmax_scaler (take (nat (windowSize eight_bar_params))
                           (drop 0 (map bar_close zigzag_frame)))
     in np_std normalized_prices + \<bar>last normalized_prices - hd normalized_prices\<bar> > 1 / 20"
    by simp
  from a b c rise_windows zigzag_windows show ?thesis by blast
qed

text \<open>
  With the default noise filter 0.1 the first script keeps a window of pattern strength
  0.015, and with the noise filter 0.5 the second script keeps a window of pattern strength
  0.25.
\<close>

theorem noise_filter_counterexample:
  "extract_windows two_bar_params rise_frame =
     Inr [\<lparr>index = 0, normalized = [0, 1 / 100], trend = 1 / 100, volatility = 1 / 200,
           momentum = 1 / 100\<rparr>] \<and>
   np_std [0, 1 / 100] + \<bar>1 / 100 - 0\<bar> = 3 / 200 \<and>
   noiseFilter two_bar_params = 1 / 10 \<and>
   extract_sliding_windows eight_bar_params zigzag_frame =
     Inr [\<lparr>start_idx = 0, end_idx = 8,
           feats = calculate_pattern_features [3, 2, 4, 3, 3, 3, 3, 3]\<rparr>] \<and>
   f_pattern_strength (calculate_pattern_features [3, 2, 4, 3, 3, 3, 3, 3]) = 1 / 4 \<and>
   noiseFilter eight_bar_params = 1 / 2"
  using rise_windows zigzag_windows zigzag_strength
  by (simp add: np_std_pair two_bar_params_def eight_bar_params_def DEFAULT_MINING_PARAMS_def)

section \<open>Confidence\<close>

text \<open>
  C9, as the code has it. The second script computes the confidence of a cluster as
  \<open>max(0.5, 1 / (1 + variance(trend) * 1000))\<close> from the variance of the members' trends;
  the first script computes \<open>max(0.5, 1 / (1 + std(trend) * 1000))\<close> from their standard
  deviation. In both the confidence of every pattern lies in \<open>[0.5, 1]\<close>.
\<close>

theorem confidence_formula:
  "confidence (fst (create_pattern rnd params cw c s g)) =
     max 0.5 (1 / (1 + np_std (map trend cw) * 1000)) \<and>
   confidence (fst (create_representative_pattern rnd sw c s g)) =
     spec_confidence 1000 (map (\<lambda>w. f_trend (feats w)) sw) \<and>
   1 / 2 \<le> confidence (fst (create_pattern rnd params cw c s g)) \<and>
   confidence (fst (create_pattern rnd params cw c s g)) \<le> 1 \<and>
   1 / 2 \<le> confidence (fst (create_representative_pattern rnd sw c s g)) \<and>
   confidence (fst (create_representative_pattern rnd sw c s g)) \<le> 1"
  using inverse_bound [OF np_std_nonneg, of "map trend cw"]
    inverse_bound [OF np_var_nonneg, of "map (\<lambda>w. f_trend (feats w)) sw"]
  by (simp add: create_pattern_confidence create_representative_confidence spec_confidence_def)

text \<open>
  Two clusters in the first script: trends of variance 1/4000000 get the confidence 2/3 and
  trends of variance 1/16000000 the confidence 4/5. The formula over the variance gives
  4000/4001 and 16000/16001 with the scale 1000 of the code, and no single scale gives both
  values (the first needs 2000000, the second 4000000).
\<close>

theorem confidence_formula_counterexample:
  "confidence (fst (create_pattern counting_random DEFAULT_MINING_PARAMS wide_cluster 0 (1 / 2) 0))
     = 2 / 3 \<and>
   np_var (map trend wide_cluster) = 1 / 4000000 \<and>
   spec_confidence 1000 (map trend wide_cluster) = 4000 / 4001 \<and>
   confidence (fst (create_pattern counting_random DEFAULT_MINING_PARAMS narrow_cluster 0 (1 / 2) 0))
     = 4 / 5 \<and>
   np_var (map trend narrow_cluster) = 1 / 16000000 \<and>
   spec_confidence 1000 (map trend narrow_cluster) = 16000 / 16001"
  by (simp add: create_pattern_confidence wide_std narrow_std wide_var narrow_var
      spec_confidence_def power2_eq_square)

section \<open>Sharpe ratio\<close>

text \<open>
  C10, as the code has it. The Sharpe ratio of every pattern of every result path is
  non-negative. In both scripts it is \<open>max(0, profitability / (volatility + 0.001))\<close> for
  the mean volatility of the cluster, so a pattern of negative profitability has the Sharpe
  ratio 0. In the demo generator it is \<open>max(0, (r - 0.15) * 2.5)\<close> for a random draw \<open>r\<close>
  of its own, whatever the profitability.
\<close>

theorem sharpe_nonnegative:
  "(extract_patterns rnd sk params data g = Inr (ps, g') \<longrightarrow> p \<in> set ps \<longrightarrow>
      0 \<le> sharpeRatio p \<and> (profitability p < 0 \<longrightarrow> sharpeRatio p = 0)) \<and>
   (extract_sliding_window_patterns rnd sk params data g = Inr (ps, g') \<longrightarrow> p \<in> set ps \<longrightarrow>
      0 \<le> sharpeRatio p \<and> (profitability p < 0 \<longrightarrow> sharpeRatio p = 0)) \<and>
   sharpeRatio (fst (create_pattern rnd params cw c s g)) =
     max 0 (profitability (fst (create_pattern rnd params cw c s g))
            / (np_mean (map volatility cw) + 0.001)) \<and>
   sharpeRatio (fst (create_representative_pattern rnd sw c s g)) =
     max 0 (profitability (fst (create_representative_pattern rnd sw c s g))
            / (np_mean (map (\<lambda>w. f_volatility (feats w)) sw) + 0.001)) \<and>
   (q \<in> set (patterns (generateDemoResults env job)) \<longrightarrow> 0 \<le> sharpeRatio q) \<and>
   sharpeRatio (demo_pattern env i k) = max 0 ((math_random env (k + 28) - 0.15) * 2.5)"
proof -
  have a: "0 \<le> sharpeRatio p \<and> (profitability p < 0 \<longrightarrow> sharpeRatio p = 0)"
    if r: "extract_patterns rnd sk params data g = Inr (ps, g')" and m: "p \<in> set ps"
  proof -
    from r obtain ws where ws: "extract_windows params data = Inr ws"
      by (auto simp: extract_patterns_def split: sum.splits)
    from extract_patterns_member [OF ws r m] obtain c g0 where
      p: "p = fst (create_pattern rnd params (cluster_members ws (window_labels sk ws) c) c
               (real (length (cluster_members ws (window_labels sk ws) c)) / real (length ws)) g0)"
      by blast
    have "\<forall>x\<in>set (map volatility (cluster_members ws (window_labels sk ws) c)). 0 \<le> x"
      using cluster_members_subset [of ws "window_labels sk ws" c]
        extract_windows_volatility [OF ws] by auto
    then have "0 \<le> np_mean (map volatility (cluster_members ws (window_labels sk ws) c))"
      by (rule np_mean_nonneg)
    from clamped_ratio [OF this] show ?thesis
      unfolding p create_pattern_sharpe by blast
  qed
  have b: "0 \<le> sharpeRatio p \<and> (profitability p < 0 \<longrightarrow> sharpeRatio p = 0)"
    if r: "extract_sliding_window_patterns rnd sk params data g = Inr (ps, g')"
      and m: "p \<in> set ps"
  proof -
    from r obtain ws where ws: "extract_sliding_windows params data = Inr ws"
      by (auto simp: extract_sliding_window_patterns_def split: sum.splits)
    from extract_sliding_member [OF ws r m] obtain c g0 where
      p: "p = fst (create_representative_pattern rnd
               (cluster_members ws (final_labels sk ws) c) c
               (real (length (cluster_members ws (final_labels sk ws) c)) / real (length ws)) g0)"
      by blast
    have "\<forall>x\<in>set (map (\<lambda>w. f_volatility (feats w))
                      (cluster_members ws (final_labels sk ws) c)). 0 \<le> x"
      using cluster_members_subset [of ws "final_labels sk ws" c]
        extract_sliding_volatility [OF ws] by auto
    then have "0 \<le> np_mean (map (\<lambda>w. f_volatility (feats w))
                               (cluster_members ws (final_labels sk ws) c))"
      by (rule np_mean_nonneg)
    from clamped_ratio [OF this] show ?thesis
      unfolding p create_representative_sharpe by blast
  qed
  have d: "0 \<le> sharpeRatio q" if "q \<in> set (patterns (generateDemoResults env job))"
    using that unfolding demo_result_patterns demo_patterns_set
    by (auto simp: demo_pattern_sharpe)
  from a b d show ?thesis
    using create_pattern_sharpe [of rnd params cw c s g]
      create_representative_sharpe [of rnd sw c s g] demo_pattern_sharpe [of env i k]
    by blast
qed

theorem sharpe_nonnegative_witness:
  "ramp_run = Inr (fst (projr ramp_run), snd (projr ramp_run)) \<and>
   hd (fst (projr ramp_run)) \<in> set (fst (projr ramp_run)) \<and>
   0 \<le> sharpeRatio (hd (fst (projr ramp_run))) \<and>
   ramp_sliding_run = Inr (fst (projr ramp_sliding_run), snd (projr ramp_sliding_run)) \<and>
   hd (fst (projr ramp_sliding_run)) \<in> set (fst (projr ramp_sliding_run)) \<and>
   0 \<le> sharpeRatio (hd (fst (projr ramp_sliding_run))) \<and>
   hd (patterns demo_zero) \<in> set (patterns demo_zero) \<and>
   0 \<le> sharpeRatio (hd (patterns demo_zero))"
proof -
  have r: "ramp_run = Inr (fst (projr ramp_run), snd (projr ramp_run))"
    unfolding ramp_run_patterns by simp
  have h: "hd (fst (projr ramp_run)) \<in> set (fst (projr ramp_run))"
    using ramp_run_head hd_in_set by blast
  have r2: "ramp_sliding_run = Inr (fst (projr ramp_sliding_run), snd (projr ramp_sliding_run))"
    unfolding ramp_sliding_run_patterns by simp
  have h2: "hd (fst (projr ramp_sliding_run)) \<in> set (fst (projr ramp_sliding_run))"
    using ramp_sliding_run_head hd_in_set by blast
  have h3: "hd (patterns demo_zero) \<in> set (patterns demo_zero)"
    unfolding demo_zero_def demo_result_patterns
    using demo_patterns_nonempty by (rule hd_in_set)
  have "0 \<le> sharpeRatio (hd (fst (projr ramp_run)))"
    using sharpe_nonnegative [of counting_random halving_sklearn two_bar_params ramp_frame 0
        "fst (projr ramp_run)" "snd (projr ramp_run)" "hd (fst (projr ramp_run))"] r h
    unfolding ramp_run_def by blast
  moreover have "0 \<le> sharpeRatio (hd (fst (projr ramp_sliding_run)))"
    using sharpe_nonnegative [of counting_random halving_sklearn two_bar_params ramp_frame 0
        "fst (projr ramp_sliding_run)" "snd (projr ramp_sliding_run)"
        "hd (fst (projr ramp_sliding_run))"] r2 h2
    unfolding ramp_sliding_run_def by blast
  moreover have "0 \<le> sharpeRatio (hd (patterns demo_zero))"
    using sharpe_nonnegative [where rnd = counting_random and q = "hd (patterns demo_zero)"
        and env = zero_env and job = "''netszy/forex-pattern-0''"] h3
    unfolding demo_zero_def by blast
  ultimately show ?thesis using r h r2 h2 h3 by blast
qed

text \<open>
  A pattern of the demo generator with the profitability -0.036 and the Sharpe ratio 1.875.
\<close>

theorem sharpe_nonnegative_counterexample:
  "demo_pattern sharpe_env 0 1 \<in> set (patterns demo_sharpe) \<and>
   profitability (demo_pattern sharpe_env 0 1) = - (9 / 250) \<and>
   sharpeRatio (demo_pattern sharpe_env 0 1) = 15 / 8"
proof -
  have "0 < demo_count sharpe_env" by (simp add: demo_count_def)
  then have "demo_pattern sharpe_env 0 (1 + 32 * 0) \<in> set (demo_patterns sharpe_env)"
    unfolding demo_patterns_set by (intro imageI) simp
  then have "demo_pattern sharpe_env 0 1 \<in> set (patterns demo_sharpe)"
    by (simp add: demo_sharpe_def demo_result_patterns)
  moreover have "profitability (demo_pattern sharpe_env 0 1) = - (9 / 250)"
    by (simp add: demo_pattern_def Let_def sharpe_env_def)
  moreover have "sharpeRatio (demo_pattern sharpe_env 0 1) = 15 / 8"
    by (simp add: demo_pattern_sharpe sharpe_env_def)
  ultimately show ?thesis by blast
qed

end
